theory Spec2Isabelle
  imports Main "HOL-Library.AList"
begin

section \<open>Objects, errors and the store\<close>

text \<open>
  Tables and fields are Python objects with identity that refer to each other
  (a field to its table, a table to its fields, a derived table to its source
  tables), so the embedding keeps them in an explicit store: two lists indexed
  by object identifier. A new object takes the next free index. The module
  global \<open>CURRENT_TABLE_CONTEXT\<close> of \<open>fields.py\<close> is the third component of the
  state.
\<close>

type_synonym tid = nat
type_synonym fid = nat

text \<open>What a placeholder can resolve to: a table (\<open>{a}\<close>) or a field (\<open>{a.id}\<close>).\<close>

datatype pyobj = OTable tid | OField fid

text \<open>A subscript key of a placeholder (\<open>{a[id]}\<close>, \<open>{a[0]}\<close>): text or a number.\<close>

datatype pykey = KStr string | KInt nat

text \<open>
  The exceptions of \<open>exceptions.py\<close> with the data they carry, and the
  built-in exceptions the code can raise. \<open>Unmodelled\<close> is not an exception:
  it marks the places where the behaviour depends on attributes of built-in
  Python objects or on the format-specification language, which the embedding
  does not describe. No statement below is about an \<open>Unmodelled\<close> outcome.
\<close>

datatype error =
    NoTableContextSetException string
  | DuplicatedFieldException tid fid
  | UndefinedFieldException tid pykey
  | UnregisteredSourceException tid string
  | RuntimeError
  | KeyError string
  | IndexError
  | ValueError
  | TypeError
  | AttributeError
  | Unmodelled

text \<open>
  The attributes only a \<open>DerivedTable\<close> has. \<open>_groupby\<close> is a Python set of
  fields. A set has no order of its own: the order in which \<open>get_groupby\<close>
  iterates over it comes from the hashes of the field objects, that is from
  their addresses, which the store does not describe. The model keeps the set
  as a duplicate-free list, and the order of that list is the order in which
  the set iterates. With no key or one key there is only one order.
  \<open>_sources\<close> is a dict, kept as an association list in insertion order.
\<close>

record derived_attrs =
  d_groupby :: "fid list"
  d_sources :: "(string \<times> tid) list"
  d_from_expression :: string

record table =
  t_schema :: string
  t_pname :: string
  t_lname :: string
  t_alias :: string
  t_fields :: "(string \<times> fid) list"
  t_derived :: "derived_attrs option"

text \<open>
  A field object. \<open>f_table\<close>, \<open>f_expression\<close> and \<open>f_sources\<close> are \<open>None\<close>
  until the constructor assigns the attribute: a constructor that raises
  leaves the later attributes unset.
\<close>

record field =
  f_pname :: string
  f_lname :: string
  f_is_derived :: bool
  f_table :: "tid option"
  f_expression :: "string option"
  f_sources :: "pyobj list option"

record state =
  heap_tables :: "table list"
  heap_fields :: "field list"
  CURRENT_TABLE_CONTEXT :: "tid list"

definition initial_state :: state where
  "initial_state = \<lparr>heap_tables = [], heap_fields = [], CURRENT_TABLE_CONTEXT = []\<rparr>"

type_synonym 'a action = "state \<Rightarrow> (error + 'a) \<times> state"

text \<open>Sequencing of two calls: an exception of the first skips the second.\<close>

definition and_then :: "'a action \<Rightarrow> ('a \<Rightarrow> 'b action) \<Rightarrow> 'b action" where
  "and_then m k s = (case m s of (Inl e, s') \<Rightarrow> (Inl e, s') | (Inr a, s') \<Rightarrow> k a s')"

text \<open>\<open>x if x else d\<close> for an optional string: \<open>None\<close> and the empty string are false.\<close>

definition or_default :: "string option \<Rightarrow> string \<Rightarrow> string" where
  "or_default x d = (case x of None \<Rightarrow> d | Some v \<Rightarrow> if v = [] then d else v)"

text \<open>\<open>key in d\<close> for a dict.\<close>

definition dict_contains :: "'k \<Rightarrow> ('k \<times> 'v) list \<Rightarrow> bool" where
  "dict_contains k d = (k \<in> set (map fst d))"

section \<open>Tables: construction and build scope (tables.py)\<close>

text \<open>\<open>BaseTable.__init__\<close>; a \<open>RawTable\<close> adds nothing to it.\<close>

definition BaseTable_init :: "string \<Rightarrow> string \<Rightarrow> string option \<Rightarrow> string option \<Rightarrow> table" where
  "BaseTable_init schema pname lname alias =
     \<lparr>t_schema = schema, t_pname = pname, t_lname = or_default lname pname,
      t_alias = or_default alias pname, t_fields = [], t_derived = None\<rparr>"

definition RawTable :: "string \<Rightarrow> string \<Rightarrow> string option \<Rightarrow> string option \<Rightarrow> tid action" where
  "RawTable schema pname lname alias s =
     (Inr (length (heap_tables s)),
      s\<lparr>heap_tables := heap_tables s @ [BaseTable_init schema pname lname alias]\<rparr>)"

text \<open>
  \<open>DerivedTable._process_sources\<close>: the dict comprehension
  \<open>{t._alias: t for t in sources}\<close>. A key met again keeps its place and takes
  the new value, which is what \<open>AList.update\<close> does.
\<close>

fun process_sources_from :: "table list \<Rightarrow> (string \<times> tid) list \<Rightarrow> tid list \<Rightarrow> (string \<times> tid) list" where
  "process_sources_from ts acc [] = acc"
| "process_sources_from ts acc (t # rest) =
     process_sources_from ts (AList.update (t_alias (ts ! t)) t acc) rest"

definition process_sources :: "state \<Rightarrow> tid list \<Rightarrow> (string \<times> tid) list" where
  "process_sources s sources = process_sources_from (heap_tables s) [] sources"

text \<open>\<open>DerivedTable.__init__\<close>. No branch of it raises.\<close>

definition DerivedTable ::
  "string \<Rightarrow> string \<Rightarrow> tid list \<Rightarrow> string \<Rightarrow> string option \<Rightarrow> string option \<Rightarrow> tid action" where
  "DerivedTable schema pname sources from_expr lname alias s =
     (Inr (length (heap_tables s)),
      s\<lparr>heap_tables := heap_tables s @
           [(BaseTable_init schema pname lname alias)
              \<lparr>t_derived := Some \<lparr>d_groupby = [], d_sources = process_sources s sources,
                                  d_from_expression = from_expr\<rparr>\<rparr>]\<rparr>)"

text \<open>\<open>BaseTable.__enter__\<close> and \<open>BaseTable.__exit__\<close>.\<close>

definition table_enter :: "tid \<Rightarrow> unit action" where
  "table_enter t s =
     (if length (CURRENT_TABLE_CONTEXT s) > 0 then (Inl RuntimeError, s)
      else (Inr (), s\<lparr>CURRENT_TABLE_CONTEXT := CURRENT_TABLE_CONTEXT s @ [t]\<rparr>))"

definition table_exit :: "tid \<Rightarrow> unit action" where
  "table_exit t s =
     (if t \<notin> set (CURRENT_TABLE_CONTEXT s) then (Inl RuntimeError, s)
      else (Inr (), s\<lparr>CURRENT_TABLE_CONTEXT := remove1 t (CURRENT_TABLE_CONTEXT s)\<rparr>))"

text \<open>\<open>BaseTable.add_field\<close>.\<close>

definition add_field :: "tid \<Rightarrow> fid \<Rightarrow> unit action" where
  "add_field t f s =
     (let pn = f_pname (heap_fields s ! f); T = heap_tables s ! t in
      if dict_contains pn (t_fields T) then (Inl (DuplicatedFieldException t f), s)
      else (Inr (), s\<lparr>heap_tables :=
              (heap_tables s)[t := T\<lparr>t_fields := AList.update pn f (t_fields T)\<rparr>]\<rparr>))"

text \<open>\<open>BaseTable.__getitem__\<close>; \<open>__getattr__\<close> delegates to it.\<close>

definition table_getitem :: "state \<Rightarrow> tid \<Rightarrow> pykey \<Rightarrow> error + fid" where
  "table_getitem s t key =
     (case key of
        KInt n \<Rightarrow> Inl (UndefinedFieldException t key)
      | KStr k \<Rightarrow> (case map_of (t_fields (heap_tables s ! t)) k of
                     None \<Rightarrow> Inl (UndefinedFieldException t key)
                   | Some f \<Rightarrow> Inr f))"

definition table_getattr :: "state \<Rightarrow> tid \<Rightarrow> string \<Rightarrow> error + fid" where
  "table_getattr s t key = table_getitem s t (KStr key)"

text \<open>The error of calling a method a table does not have: \<open>__getattr__\<close> finds a
  field of that name, which is not callable, or no field at all.\<close>

definition missing_method :: "state \<Rightarrow> tid \<Rightarrow> string \<Rightarrow> error" where
  "missing_method s t name =
     (case table_getattr s t name of Inl e \<Rightarrow> e | Inr f \<Rightarrow> TypeError)"

text \<open>
  \<open>DerivedTable.groupby\<close>: \<open>set(fields)\<close>. The argument \<open>fs\<close> names the keys in
  the order in which the new set will iterate, which for two or more keys need
  not be the order of the Python argument (see \<open>d_groupby\<close>); a key named
  twice is kept once. A \<open>RawTable\<close> has no such method.
\<close>

definition groupby :: "tid \<Rightarrow> fid list \<Rightarrow> unit action" where
  "groupby t fs s =
     (let T = heap_tables s ! t in
      case t_derived T of
        None \<Rightarrow> (Inl (missing_method s t ''groupby''), s)
      | Some d \<Rightarrow> (Inr (), s\<lparr>heap_tables :=
                     (heap_tables s)[t := T\<lparr>t_derived := Some (d\<lparr>d_groupby := remdups fs\<rparr>)\<rparr>]\<rparr>))"

text \<open>\<open>DerivedTable.get_source\<close>.\<close>

definition get_source :: "state \<Rightarrow> tid \<Rightarrow> string \<Rightarrow> error + tid" where
  "get_source s t key =
     (case t_derived (heap_tables s ! t) of
        None \<Rightarrow> Inl (missing_method s t ''get_source'')
      | Some d \<Rightarrow> (case map_of (d_sources d) key of
                     None \<Rightarrow> Inl (UnregisteredSourceException t key)
                   | Some src \<Rightarrow> Inr src))"

section \<open>Fields: construction (fields.py)\<close>

text \<open>\<open>BaseField.set_table\<close>.\<close>

definition set_table :: "fid \<Rightarrow> tid action" where
  "set_table f s =
     (if length (CURRENT_TABLE_CONTEXT s) = 0
      then (Inl (NoTableContextSetException (f_pname (heap_fields s ! f))), s)
      else (let t = hd (CURRENT_TABLE_CONTEXT s) in
            case add_field t f s of
              (Inl e, s') \<Rightarrow> (Inl e, s')
            | (Inr u, s') \<Rightarrow> (Inr t, s')))"

text \<open>
  \<open>BaseField.__init__\<close>. The object exists (with \<open>_pname\<close> and \<open>_lname\<close>)
  before \<open>set_table\<close> runs; \<open>_table\<close> is assigned only when \<open>set_table\<close>
  returns.
\<close>

definition BaseField_init :: "bool \<Rightarrow> string \<Rightarrow> string option \<Rightarrow> fid action" where
  "BaseField_init is_derived pname lname s =
     (let f = length (heap_fields s);
          s1 = s\<lparr>heap_fields := heap_fields s @
                  [\<lparr>f_pname = pname, f_lname = or_default lname pname,
                    f_is_derived = is_derived, f_table = None,
                    f_expression = None, f_sources = None\<rparr>]\<rparr>
      in case set_table f s1 of
           (Inl e, s2) \<Rightarrow> (Inl e, s2)
         | (Inr t, s2) \<Rightarrow>
             (Inr f, s2\<lparr>heap_fields :=
                (heap_fields s2)[f := (heap_fields s2 ! f)\<lparr>f_table := Some t\<rparr>]\<rparr>))"

definition RawField :: "string \<Rightarrow> string option \<Rightarrow> fid action" where
  "RawField pname lname = BaseField_init False pname lname"

section \<open>The format-string parser (Python's \<open>string.Formatter\<close>)\<close>

text \<open>
  \<open>get_fields_from_expr\<close>, \<open>DerivedField.get_expression\<close> and
  \<open>DerivedTable.get_from\<close> hand the expression to Python's format-string
  machinery. That machinery is the standard library's, so it is modelled here
  from CPython's documented behaviour: \<open>Formatter.parse\<close> yields tuples
  (literal text, field name, format spec, conversion) one at a time and raises
  \<open>ValueError\<close> at the first malformed place. The parse is lazy, so its
  result is the list of tuples yielded, then the error that ended it, if any.
\<close>

datatype fmt_item =
  FmtItem (literal_text: string) (field_name: "string option")
          (format_spec: "string option") (conversion: "char option")

definition is_brace :: "char \<Rightarrow> bool" where
  "is_brace c = (c = CHR ''{'' \<or> c = CHR ''}'')"

text \<open>
  The field name runs to the first \<open>}\<close>, \<open>:\<close> or \<open>!\<close> outside square
  brackets; a \<open>{\<close> in it, or the end of the text, is an error (\<open>None\<close>). The
  flag says whether the scan is inside \<open>[...]\<close>. The result is the name, the
  character that ended it and the text after that character.
\<close>

fun scan_field_name :: "bool \<Rightarrow> string \<Rightarrow> string \<Rightarrow> (string \<times> char \<times> string) option" where
  "scan_field_name inb acc [] = None"
| "scan_field_name True acc (c # cs) = scan_field_name (c \<noteq> CHR '']'') (acc @ [c]) cs"
| "scan_field_name False acc (c # cs) =
     (if c = CHR ''{'' then None
      else if c = CHR ''['' then scan_field_name True (acc @ [c]) cs
      else if c = CHR ''}'' \<or> c = CHR '':'' \<or> c = CHR ''!'' then Some (acc, c, cs)
      else scan_field_name False (acc @ [c]) cs)"

text \<open>The format spec runs to the \<open>}\<close> that closes the field; braces inside it nest.
  \<open>count\<close> is the number of braces still open.\<close>

fun scan_format_spec :: "nat \<Rightarrow> string \<Rightarrow> string \<Rightarrow> (string \<times> string) option" where
  "scan_format_spec count acc [] = None"
| "scan_format_spec count acc (c # cs) =
     (if c = CHR ''{'' then scan_format_spec (Suc count) (acc @ [c]) cs
      else if c = CHR ''}'' then
        (if count - 1 = 0 then Some (acc, cs) else scan_format_spec (count - 1) (acc @ [c]) cs)
      else scan_format_spec count (acc @ [c]) cs)"

text \<open>One replacement field, from just after its \<open>{\<close>: name, spec, conversion and
  the text after its closing \<open>}\<close>; \<open>None\<close> is a \<open>ValueError\<close>.\<close>

definition parse_field :: "string \<Rightarrow> (string \<times> string \<times> char option \<times> string) option" where
  "parse_field str =
     (case scan_field_name False [] str of
        None \<Rightarrow> None
      | Some (name, c, rest) \<Rightarrow>
          if c = CHR ''}'' then Some (name, [], None, rest)
          else if c = CHR ''!'' then
            (case rest of
               [] \<Rightarrow> None
             | conv # rest1 \<Rightarrow>
                 (case rest1 of
                    [] \<Rightarrow> None
                  | c2 # rest2 \<Rightarrow>
                      if c2 = CHR ''}'' then Some (name, [], Some conv, rest2)
                      else if c2 \<noteq> CHR '':'' then None
                      else (case scan_format_spec 1 [] rest2 of
                              None \<Rightarrow> None
                            | Some (spec, rest3) \<Rightarrow> Some (name, spec, Some conv, rest3))))
          else (case scan_format_spec 1 [] rest of
                  None \<Rightarrow> None
                | Some (spec, rest3) \<Rightarrow> Some (name, spec, None, rest3)))"

lemma scan_field_name_length:
  "scan_field_name inb acc str = Some (name, c, rest) \<Longrightarrow> length rest < length str"
  by (induction inb acc str rule: scan_field_name.induct) (auto split: if_splits)

lemma scan_format_spec_length:
  "scan_format_spec count acc str = Some (spec, rest) \<Longrightarrow> length rest < length str"
  by (induction count acc str rule: scan_format_spec.induct) (auto split: if_splits)

lemma parse_field_length:
  "parse_field str = Some (name, spec, conv, rest) \<Longrightarrow> length rest < length str"
  unfolding parse_field_def
  by (auto split: option.splits if_splits list.splits prod.splits
           dest!: scan_field_name_length scan_format_spec_length)

lemma dropWhile_Cons_length:
  "dropWhile P str = c # cs \<Longrightarrow> length cs < length str"
  using length_dropWhile_le [of P str] by simp

text \<open>
  \<open>Formatter.parse\<close>. Literal text runs to the next brace; a doubled brace is
  one literal brace and ends the tuple without a field; a single \<open>}\<close>, or a
  \<open>{\<close> at the very end, is an error.
\<close>

function formatter_parse :: "string \<Rightarrow> fmt_item list \<times> error option" where
  "formatter_parse str =
     (if str = [] then ([], None)
      else
        let lit = takeWhile (\<lambda>c. \<not> is_brace c) str in
        case dropWhile (\<lambda>c. \<not> is_brace c) str of
          [] \<Rightarrow> ([FmtItem lit None None None], None)
        | c # cs \<Rightarrow>
            if c = CHR ''}'' \<and> (cs = [] \<or> hd cs \<noteq> c) then ([], Some ValueError)
            else if cs = [] then ([], Some ValueError)
            else if hd cs = c then
              (case formatter_parse (tl cs) of
                 (items, err) \<Rightarrow> (FmtItem (lit @ [c]) None None None # items, err))
            else
              (case parse_field cs of
                 None \<Rightarrow> ([], Some ValueError)
               | Some (name, spec, conv, rest) \<Rightarrow>
                   (case formatter_parse rest of
                      (items, err) \<Rightarrow> (FmtItem lit (Some name) (Some spec) conv # items, err))))"
  by pat_completeness auto
termination
proof (relation "measure length")
  show "wf (measure length)" by simp
next
  fix str :: string and lit c cs
  assume "dropWhile (\<lambda>c. \<not> is_brace c) str = c # cs" "cs \<noteq> []"
  then show "(tl cs, str) \<in> measure length"
    using dropWhile_Cons_length [of "\<lambda>c. \<not> is_brace c" str c cs] by (cases cs) auto
next
  fix str :: string and lit c cs x2 name y spec ya conv rest
  assume "dropWhile (\<lambda>c. \<not> is_brace c) str = c # cs"
    and "parse_field cs = Some x2" "(name, y) = x2" "(spec, ya) = y" "(conv, rest) = ya"
  then show "(rest, str) \<in> measure length"
    using dropWhile_Cons_length [of "\<lambda>c. \<not> is_brace c" str c cs]
          parse_field_length [of cs name spec conv rest] by auto
qed

section \<open>Resolving a field name against the sources\<close>

text \<open>
  A first component made of decimal digits only is a positional index.
  \<open>get_integer\<close> reads it character by character: a character that is not a
  decimal digit ends the reading (the component is a name), and the number
  passing the largest index of a 64-bit build raises \<open>ValueError\<close>.

  CPython asks the Unicode database whether a character is a decimal digit.
  The text of the model is a list of bytes: in the ASCII range the digits are
  \<open>0\<close> to \<open>9\<close>; what a character outside that range is, the model does not
  describe, so reading one is \<open>Unmodelled\<close>.
\<close>

definition is_ascii :: "char \<Rightarrow> bool" where
  "is_ascii c = (\<not> digit7 c)"

definition is_digit :: "char \<Rightarrow> bool" where
  "is_digit c = (c \<in> set ''0123456789'')"

definition digit_val :: "char \<Rightarrow> nat" where
  "digit_val c = of_char c - 48"

definition PY_SSIZE_T_MAX :: nat where
  "PY_SSIZE_T_MAX = 2 ^ 63 - 1"

fun get_integer_from :: "nat \<Rightarrow> string \<Rightarrow> error + nat option" where
  "get_integer_from acc [] = Inr (Some acc)"
| "get_integer_from acc (c # cs) =
     (if \<not> is_ascii c then Inl Unmodelled
      else if \<not> is_digit c then Inr None
      else if acc > (PY_SSIZE_T_MAX - digit_val c) div 10 then Inl ValueError
      else get_integer_from (acc * 10 + digit_val c) cs)"

definition get_integer :: "string \<Rightarrow> error + nat option" where
  "get_integer str = (if str = [] then Inr None else get_integer_from 0 str)"

definition as_key :: "string \<Rightarrow> nat option \<Rightarrow> pykey" where
  "as_key name idx = (case idx of None \<Rightarrow> KStr name | Some n \<Rightarrow> KInt n)"

definition is_name_end :: "char \<Rightarrow> bool" where
  "is_name_end c = (c = CHR ''.'' \<or> c = CHR ''['')"

text \<open>
  The components after the first: \<open>.name\<close> is an attribute (\<open>True\<close>),
  \<open>[key]\<close> a subscript (\<open>False\<close>). They are produced one at a time, so the
  result is again the components read, then the error that stopped the
  reading, if any.
\<close>

function field_name_rest :: "string \<Rightarrow> (bool \<times> pykey) list \<times> error option" where
  "field_name_rest [] = ([], None)"
| "field_name_rest (c # cs) =
     (if c = CHR ''.'' then
        (let name = takeWhile (\<lambda>x. \<not> is_name_end x) cs in
         if name = [] then ([], Some ValueError)
         else (case field_name_rest (dropWhile (\<lambda>x. \<not> is_name_end x) cs) of
                 (steps, err) \<Rightarrow> ((True, KStr name) # steps, err)))
      else if c = CHR ''['' then
        (let name = takeWhile (\<lambda>x. x \<noteq> CHR '']'') cs in
         case dropWhile (\<lambda>x. x \<noteq> CHR '']'') cs of
           [] \<Rightarrow> ([], Some ValueError)
         | b # after \<Rightarrow>
             (case get_integer name of
                Inl e \<Rightarrow> ([], Some e)
              | Inr idx \<Rightarrow>
                  if name = [] then ([], Some ValueError)
                  else (case field_name_rest after of
                          (steps, err) \<Rightarrow> ((False, as_key name idx) # steps, err))))
      else ([], Some ValueError))"
  by pat_completeness auto
termination
proof (relation "measure length")
  show "wf (measure length)" by simp
next
  fix c :: char and cs name
  show "(dropWhile (\<lambda>x. \<not> is_name_end x) cs, c # cs) \<in> measure length"
    using length_dropWhile_le [of "\<lambda>x. \<not> is_name_end x" cs] by simp
next
  fix c :: char and cs name b after
  assume "dropWhile (\<lambda>x. x \<noteq> CHR '']'') cs = b # after"
  then show "(after, c # cs) \<in> measure length"
    using dropWhile_Cons_length [of "\<lambda>x. x \<noteq> CHR '']''" cs b after] by simp
qed

text \<open>
  What \<open>self._table._sources\<close> evaluates to. For a \<open>DerivedTable\<close> it is the
  dict of sources. A \<open>RawTable\<close> has no such attribute, so \<open>__getattr__\<close>
  looks for a field named \<open>_sources\<close>.
\<close>

datatype resolve_context = CDict "(string \<times> tid) list" | CField fid

definition table_sources_attr :: "state \<Rightarrow> tid \<Rightarrow> error + resolve_context" where
  "table_sources_attr s t =
     (case t_derived (heap_tables s ! t) of
        Some d \<Rightarrow> Inr (CDict (d_sources d))
      | None \<Rightarrow> (case table_getattr s t ''_sources'' of
                   Inl e \<Rightarrow> Inl e
                 | Inr f \<Rightarrow> Inr (CField f)))"

text \<open>\<open>Formatter.get_value\<close> with \<open>args = []\<close>: a positional index is always out
  of range; a name is looked up in the context.\<close>

definition get_value :: "pykey \<Rightarrow> resolve_context \<Rightarrow> error + pyobj" where
  "get_value key ctx =
     (case key of
        KInt n \<Rightarrow> Inl IndexError
      | KStr k \<Rightarrow> (case ctx of
                     CField f \<Rightarrow> Inl TypeError
                   | CDict d \<Rightarrow> (case map_of d k of
                                  None \<Rightarrow> Inl (KeyError k)
                                | Some t \<Rightarrow> Inr (OTable t))))"

text \<open>
  Names that Python's ordinary attribute lookup finds on a table or a field
  before \<open>__getattr__\<close> is asked: the attributes and methods the classes
  define, and the names every object inherits, all of which start with two
  underscores (or are \<open>_abc_impl\<close>). Their values are not tables or fields,
  so a placeholder that names one is outside the model.
\<close>

definition table_native_attr :: "bool \<Rightarrow> string \<Rightarrow> bool" where
  "table_native_attr derived name =
     (take 2 name = ''__''
      \<or> name \<in> set [''_abc_impl'', ''_schema'', ''_pname'', ''_lname'', ''_alias'', ''_fields'',
                     ''add_field'', ''describe'']
      \<or> (derived \<and> name \<in> set [''_groupby'', ''_sources'', ''_from_expression'',
                     ''_process_sources'', ''groupby'', ''get_source'', ''get_select'',
                     ''get_from'', ''get_groupby'', ''get_query'']))"

definition field_native_attr :: "string \<Rightarrow> bool" where
  "field_native_attr name =
     (take 2 name = ''__''
      \<or> name \<in> set [''_abc_impl'', ''_pname'', ''_lname'', ''_table'', ''_expression'',
                     ''_sources'', ''set_table'', ''get_expression'', ''get_sources'',
                     ''get_lineage'', ''describe''])"

definition py_getattr :: "state \<Rightarrow> pyobj \<Rightarrow> string \<Rightarrow> error + pyobj" where
  "py_getattr s obj name =
     (case obj of
        OTable t \<Rightarrow>
          if table_native_attr (t_derived (heap_tables s ! t) \<noteq> None) name then Inl Unmodelled
          else (case table_getattr s t name of Inl e \<Rightarrow> Inl e | Inr f \<Rightarrow> Inr (OField f))
      | OField f \<Rightarrow>
          if field_native_attr name then Inl Unmodelled else Inl AttributeError)"

definition py_getitem :: "state \<Rightarrow> pyobj \<Rightarrow> pykey \<Rightarrow> error + pyobj" where
  "py_getitem s obj key =
     (case obj of
        OTable t \<Rightarrow> (case table_getitem s t key of Inl e \<Rightarrow> Inl e | Inr f \<Rightarrow> Inr (OField f))
      | OField f \<Rightarrow> Inl TypeError)"

text \<open>The loop of \<open>Formatter.get_field\<close> over the remaining components.\<close>

fun walk_rest :: "state \<Rightarrow> pyobj \<Rightarrow> (bool \<times> pykey) list \<Rightarrow> error option \<Rightarrow> error + pyobj" where
  "walk_rest s obj [] err = (case err of None \<Rightarrow> Inr obj | Some e \<Rightarrow> Inl e)"
| "walk_rest s obj ((is_attr, key) # steps) err =
     (case (if is_attr then (case key of KStr name \<Rightarrow> py_getattr s obj name
                                       | KInt n \<Rightarrow> Inl Unmodelled)
            else py_getitem s obj key) of
        Inl e \<Rightarrow> Inl e
      | Inr obj' \<Rightarrow> walk_rest s obj' steps err)"

definition split_first :: "string \<Rightarrow> string \<times> string" where
  "split_first name = (takeWhile (\<lambda>x. \<not> is_name_end x) name, dropWhile (\<lambda>x. \<not> is_name_end x) name)"

text \<open>\<open>Formatter.get_field(field_name, [], context)\<close>.\<close>

definition get_field :: "state \<Rightarrow> string \<Rightarrow> resolve_context \<Rightarrow> error + pyobj" where
  "get_field s name ctx =
     (case split_first name of
        (first, rest) \<Rightarrow>
          (case get_integer first of
             Inl e \<Rightarrow> Inl e
           | Inr idx \<Rightarrow>
               (case get_value (as_key first idx) ctx of
                  Inl e \<Rightarrow> Inl e
                | Inr obj \<Rightarrow>
                    (case field_name_rest rest of
                       (steps, err) \<Rightarrow> walk_rest s obj steps err))))"

text \<open>\<open>field_list.add(field)\<close>: tables and fields compare by identity.\<close>

definition set_add :: "'a \<Rightarrow> 'a list \<Rightarrow> 'a list" where
  "set_add x xs = (if x \<in> set xs then xs else xs @ [x])"

text \<open>The loop of \<open>get_fields_from_expr\<close> over the parsed tuples; a tuple
  without a field name, or with the empty name of \<open>{}\<close>, is skipped.\<close>

fun resolve_items ::
  "state \<Rightarrow> resolve_context \<Rightarrow> fmt_item list \<Rightarrow> error option \<Rightarrow> pyobj list \<Rightarrow> error + pyobj list" where
  "resolve_items s ctx [] err field_list = (case err of None \<Rightarrow> Inr field_list | Some e \<Rightarrow> Inl e)"
| "resolve_items s ctx (item # items) err field_list =
     (case field_name item of
        None \<Rightarrow> resolve_items s ctx items err field_list
      | Some name \<Rightarrow>
          if name = [] then resolve_items s ctx items err field_list
          else (case get_field s name ctx of
                  Inl e \<Rightarrow> Inl e
                | Inr obj \<Rightarrow> resolve_items s ctx items err (set_add obj field_list)))"

definition get_fields_from_expr :: "state \<Rightarrow> string \<Rightarrow> resolve_context \<Rightarrow> error + pyobj list" where
  "get_fields_from_expr s expression ctx =
     (case formatter_parse expression of
        (items, err) \<Rightarrow> resolve_items s ctx items err [])"

section \<open>Rendering: \<open>str\<close> and \<open>str.format\<close>\<close>

text \<open>\<open>BaseTable.__str__\<close> and \<open>BaseField.__str__\<close>; \<open>__repr__\<close> is the same text.
  A table object is always true, so a field whose \<open>_table\<close> is set takes the
  first branch.\<close>

definition py_str :: "state \<Rightarrow> pyobj \<Rightarrow> error + string" where
  "py_str s obj =
     (case obj of
        OTable t \<Rightarrow>
          (let T = heap_tables s ! t in
           Inr (t_schema T @ ''.'' @ t_pname T @ '' as '' @ t_alias T))
      | OField f \<Rightarrow>
          (let F = heap_fields s ! f in
           case f_table F of
             None \<Rightarrow> Inl AttributeError
           | Some t \<Rightarrow> Inr (t_alias (heap_tables s ! t) @ ''.'' @ f_pname F)))"

text \<open>
  \<open>expression.format(**sources)\<close> has no positional arguments, so a field
  whose first component is empty or a number raises \<open>IndexError\<close>.
\<close>

definition format_get_field :: "state \<Rightarrow> string \<Rightarrow> (string \<times> tid) list \<Rightarrow> error + pyobj" where
  "format_get_field s name d =
     (case split_first name of
        (first, rest) \<Rightarrow>
          (case get_integer first of
             Inl e \<Rightarrow> Inl e
           | Inr idx \<Rightarrow>
               if first = [] \<or> idx \<noteq> None then Inl IndexError
               else (case map_of d first of
                       None \<Rightarrow> Inl (KeyError first)
                     | Some t \<Rightarrow>
                         (case field_name_rest rest of
                            (steps, err) \<Rightarrow> walk_rest s (OTable t) steps err))))"

text \<open>The conversions \<open>!r\<close>, \<open>!s\<close> and \<open>!a\<close>; any other is a \<open>ValueError\<close>.\<close>

definition do_conversion :: "state \<Rightarrow> pyobj \<Rightarrow> char \<Rightarrow> error + string" where
  "do_conversion s obj c =
     (if c = CHR ''r'' \<or> c = CHR ''s'' then py_str s obj
      else if c = CHR ''a'' then
        (case py_str s obj of
           Inl e \<Rightarrow> Inl e
         | Inr txt \<Rightarrow> if list_all (\<lambda>x. (of_char x :: nat) < 128) txt then Inr txt else Inl Unmodelled)
      else Inl ValueError)"

text \<open>
  One replacement field rendered. Tables and fields inherit
  \<open>object.__format__\<close>: the empty spec gives \<open>str\<close>, any other spec raises
  \<open>TypeError\<close>. A spec with nested fields, or a spec applied to converted
  text, is outside the model.
\<close>

definition render_field :: "state \<Rightarrow> pyobj \<Rightarrow> string \<Rightarrow> char option \<Rightarrow> error + string" where
  "render_field s obj spec conv =
     (case conv of
        None \<Rightarrow>
          if spec = [] then py_str s obj
          else if CHR ''{'' \<in> set spec then Inl Unmodelled
          else Inl TypeError
      | Some c \<Rightarrow>
          (case do_conversion s obj c of
             Inl e \<Rightarrow> Inl e
           | Inr txt \<Rightarrow> if spec = [] then Inr txt else Inl Unmodelled))"

fun format_items ::
  "state \<Rightarrow> (string \<times> tid) list \<Rightarrow> fmt_item list \<Rightarrow> error option \<Rightarrow> string \<Rightarrow> error + string" where
  "format_items s d [] err out = (case err of None \<Rightarrow> Inr out | Some e \<Rightarrow> Inl e)"
| "format_items s d (item # items) err out =
     (case field_name item of
        None \<Rightarrow> format_items s d items err (out @ literal_text item)
      | Some name \<Rightarrow>
          (case format_get_field s name d of
             Inl e \<Rightarrow> Inl e
           | Inr obj \<Rightarrow>
               (case render_field s obj (case format_spec item of None \<Rightarrow> [] | Some sp \<Rightarrow> sp)
                       (conversion item) of
                  Inl e \<Rightarrow> Inl e
                | Inr txt \<Rightarrow> format_items s d items err (out @ literal_text item @ txt))))"

definition py_format :: "state \<Rightarrow> string \<Rightarrow> (string \<times> tid) list \<Rightarrow> error + string" where
  "py_format s expression d =
     (case formatter_parse expression of
        (items, err) \<Rightarrow> format_items s d items err [])"

section \<open>Derived fields, expressions, sources and lineage (fields.py)\<close>

text \<open>
  \<open>DerivedField.__init__\<close>: the base constructor registers the field with
  the table of the open scope, then \<open>_expression\<close> is stored, then the
  expression is resolved against \<open>self._table._sources\<close>, and only then
  \<open>_sources\<close> is stored.
\<close>

definition DerivedField :: "string \<Rightarrow> string \<Rightarrow> string option \<Rightarrow> fid action" where
  "DerivedField pname expression lname s =
     (case BaseField_init True pname lname s of
        (Inl e, s1) \<Rightarrow> (Inl e, s1)
      | (Inr f, s1) \<Rightarrow>
          (let s2 = s1\<lparr>heap_fields :=
                      (heap_fields s1)[f := (heap_fields s1 ! f)\<lparr>f_expression := Some expression\<rparr>]\<rparr>
           in case f_table (heap_fields s2 ! f) of
                None \<Rightarrow> (Inl AttributeError, s2)
              | Some t \<Rightarrow>
                  (case table_sources_attr s2 t of
                     Inl e \<Rightarrow> (Inl e, s2)
                   | Inr ctx \<Rightarrow>
                       (case get_fields_from_expr s2 expression ctx of
                          Inl e \<Rightarrow> (Inl e, s2)
                        | Inr srcs \<Rightarrow>
                            (Inr f, s2\<lparr>heap_fields :=
                               (heap_fields s2)[f := (heap_fields s2 ! f)\<lparr>f_sources := Some srcs\<rparr>]\<rparr>)))))"

text \<open>\<open>get_expression\<close> of \<open>RawField\<close> and of \<open>DerivedField\<close>. Passing a
  non-mapping after \<open>**\<close> is a \<open>TypeError\<close>.\<close>

definition get_expression :: "state \<Rightarrow> fid \<Rightarrow> error + string" where
  "get_expression s f =
     (let F = heap_fields s ! f in
      if \<not> f_is_derived F then Inr (f_pname F)
      else (case f_expression F of
              None \<Rightarrow> Inl AttributeError
            | Some expression \<Rightarrow>
                (case f_table F of
                   None \<Rightarrow> Inl AttributeError
                 | Some t \<Rightarrow>
                     (case table_sources_attr s t of
                        Inl e \<Rightarrow> Inl e
                      | Inr (CField g) \<Rightarrow> Inl TypeError
                      | Inr (CDict d) \<Rightarrow>
                          (case py_format s expression d of
                             Inl e \<Rightarrow> Inl e
                           | Inr txt \<Rightarrow> Inr (txt @ '' as '' @ f_pname F))))))"

definition get_sources :: "state \<Rightarrow> fid \<Rightarrow> error + pyobj set" where
  "get_sources s f =
     (let F = heap_fields s ! f in
      if \<not> f_is_derived F then Inr {OField f}
      else (case f_sources F of None \<Rightarrow> Inl AttributeError | Some srcs \<Rightarrow> Inr (set srcs)))"

text \<open>
  The loop of \<open>DerivedField.get_lineage\<close>,
  \<open>for f in self._sources: lineage = lineage | f.get_lineage()\<close>, with the call
  \<open>f.get_lineage()\<close> dispatched on what \<open>f\<close> is. The recursion follows the
  store and has no cycle guard, as in the source; \<open>None\<close> stands for a
  traversal that does not return.
\<close>

partial_function (option) lineage_loop :: "state \<Rightarrow> pyobj set \<Rightarrow> pyobj list \<Rightarrow> (error + pyobj set) option" where
  "lineage_loop s lineage objs =
     (case objs of
        [] \<Rightarrow> Some (Inr lineage)
      | obj # rest \<Rightarrow>
          Option.bind
            (case obj of
               OTable t \<Rightarrow> Some (Inl (missing_method s t ''get_lineage''))
             | OField g \<Rightarrow>
                 if \<not> f_is_derived (heap_fields s ! g) then Some (Inr {OField g})
                 else (case f_sources (heap_fields s ! g) of
                         None \<Rightarrow> Some (Inl AttributeError)
                       | Some srcs \<Rightarrow> lineage_loop s {} srcs))
            (\<lambda>r. case r of
                    Inl e \<Rightarrow> Some (Inl e)
                  | Inr l \<Rightarrow> lineage_loop s (lineage \<union> l) rest))"

text \<open>\<open>get_lineage\<close> of \<open>RawField\<close> and of \<open>DerivedField\<close>. It reads the store and
  assigns nothing, so it is a function of the state alone.\<close>

definition get_lineage :: "state \<Rightarrow> fid \<Rightarrow> (error + pyobj set) option" where
  "get_lineage s f =
     (let F = heap_fields s ! f in
      if \<not> f_is_derived F then Some (Inr {OField f})
      else (case f_sources F of
              None \<Rightarrow> Some (Inl AttributeError)
            | Some srcs \<Rightarrow> lineage_loop s {} srcs))"

section \<open>The query compiler (tables.py)\<close>

definition newline :: string where
  "newline = [CHR 0x0A]"

text \<open>\<open>sep.join(parts)\<close>.\<close>

fun str_join :: "string \<Rightarrow> string list \<Rightarrow> string" where
  "str_join sep [] = []"
| "str_join sep [x] = x"
| "str_join sep (x # y # ys) = x @ sep @ str_join sep (y # ys)"

text \<open>\<open>statement.replace("\n", new)\<close>.\<close>

definition replace_newline :: "string \<Rightarrow> string \<Rightarrow> string" where
  "replace_newline new str = concat (map (\<lambda>c. if c = CHR 0x0A then new else [c]) str)"

text \<open>The list comprehension \<open>[f.get_expression() for f in self._fields.values()]\<close>:
  the first exception ends it.\<close>

fun expressions_of :: "state \<Rightarrow> fid list \<Rightarrow> error + string list" where
  "expressions_of s [] = Inr []"
| "expressions_of s (f # fs) =
     (case get_expression s f of
        Inl e \<Rightarrow> Inl e
      | Inr x \<Rightarrow> (case expressions_of s fs of Inl e \<Rightarrow> Inl e | Inr xs \<Rightarrow> Inr (x # xs)))"

definition get_select :: "state \<Rightarrow> tid \<Rightarrow> nat \<Rightarrow> error + string" where
  "get_select s t indent =
     (let T = heap_tables s ! t in
      case t_derived T of
        None \<Rightarrow> Inl (missing_method s t ''get_select'')
      | Some d \<Rightarrow>
          (case expressions_of s (map snd (t_fields T)) of
             Inl e \<Rightarrow> Inl e
           | Inr xs \<Rightarrow>
               Inr (replace_newline (newline @ replicate indent CHR '' '')
                      (str_join ('','' @ newline) xs))))"

definition get_from :: "state \<Rightarrow> tid \<Rightarrow> error + string" where
  "get_from s t =
     (case t_derived (heap_tables s ! t) of
        None \<Rightarrow> Inl (missing_method s t ''get_from'')
      | Some d \<Rightarrow> py_format s (d_from_expression d) (d_sources d))"

definition get_groupby :: "state \<Rightarrow> tid \<Rightarrow> error + string" where
  "get_groupby s t =
     (case t_derived (heap_tables s ! t) of
        None \<Rightarrow> Inl (missing_method s t ''get_groupby'')
      | Some d \<Rightarrow>
          if length (d_groupby d) = 0 then Inr []
          else Inr (''group by '' @ newline @ '' '' @
                    str_join ('','' @ newline) (map (\<lambda>f. f_pname (heap_fields s ! f)) (d_groupby d))))"

text \<open>
  \<open>DerivedTable.get_query\<close>. After \<open>cleandoc\<close> the template is the five lines
  \<open>create table {new_table} as\<close>, \<open>select\<close>, four spaces and \<open>{select_expr}\<close>,
  \<open>from\<close>, four spaces and \<open>{from_expr}\<close>, then the line \<open>{where_expr}\<close> and
  the line \<open>{groupby_expr};\<close>. The arguments are evaluated in the order
  written; \<open>where_expr\<close> is the empty string.
\<close>

definition get_query :: "state \<Rightarrow> tid \<Rightarrow> error + string" where
  "get_query s t =
     (let T = heap_tables s ! t in
      case t_derived T of
        None \<Rightarrow> Inl (missing_method s t ''get_query'')
      | Some d \<Rightarrow>
          (case get_select s t 4 of
             Inl e \<Rightarrow> Inl e
           | Inr select_expr \<Rightarrow>
               (case get_from s t of
                  Inl e \<Rightarrow> Inl e
                | Inr from_expr \<Rightarrow>
                    (case get_groupby s t of
                       Inl e \<Rightarrow> Inl e
                     | Inr groupby_expr \<Rightarrow>
                         Inr (''create table '' @ t_pname T @ '' as'' @ newline @
                              ''select'' @ newline @
                              ''    '' @ select_expr @ newline @
                              ''from'' @ newline @
                              ''    '' @ from_expr @ newline @
                              [] @ newline @
                              groupby_expr @ '';'')))))"

section \<open>Calls of the interface and the states they reach\<close>

text \<open>
  The calls that change the state, as data, so that "at any time" can be said
  as "after any sequence of calls". A call that raises leaves the state the
  exception left behind.
\<close>

datatype api_call =
    CallRawTable string string "string option" "string option"
  | CallDerivedTable string string "tid list" string "string option" "string option"
  | CallEnter tid
  | CallExit tid
  | CallRawField string "string option"
  | CallDerivedField string string "string option"
  | CallGroupby tid "fid list"

fun perform :: "api_call \<Rightarrow> state \<Rightarrow> state" where
  "perform (CallRawTable schema pname lname alias) s = snd (RawTable schema pname lname alias s)"
| "perform (CallDerivedTable schema pname sources from_expr lname alias) s =
     snd (DerivedTable schema pname sources from_expr lname alias s)"
| "perform (CallEnter t) s = snd (table_enter t s)"
| "perform (CallExit t) s = snd (table_exit t s)"
| "perform (CallRawField pname lname) s = snd (RawField pname lname s)"
| "perform (CallDerivedField pname expression lname) s = snd (DerivedField pname expression lname s)"
| "perform (CallGroupby t fs) s = snd (groupby t fs s)"

definition run_calls :: "api_call list \<Rightarrow> state \<Rightarrow> state" where
  "run_calls calls s = foldl (\<lambda>s c. perform c s) s calls"

text \<open>The state of \<open>test_add_duplicated_fields\<close> after its first field: a raw
  table, its scope open, one field in it.\<close>

definition one_field_scene :: state where
  "one_field_scene =
     snd (and_then (RawTable ''test_schema'' ''test_pname'' (Some ''test_lname'') None) (\<lambda>t.
          and_then (table_enter t) (\<lambda>u.
          RawField ''test_field_pname'' (Some ''test_field_lname''))) initial_state)"

text \<open>Two source tables that were given the same alias.\<close>

definition shared_alias_scene :: state where
  "shared_alias_scene =
     snd (and_then (RawTable ''main'' ''table_1'' (Some ''Table 1'') (Some ''a'')) (\<lambda>t1.
          RawTable ''main'' ''table_3'' (Some ''Table 3'') (Some ''a'')) initial_state)"

text \<open>
  A successful \<open>BaseField.__init__\<close> appends the new field object to the
  store and registers it with the table of the scope. \<open>new_field\<close> is that
  object, \<open>registered\<close> the tables afterwards, and \<open>half_built\<close> the state in
  which \<open>DerivedField.__init__\<close> resolves its expression: the field is
  registered and has its \<open>_expression\<close>, but no \<open>_sources\<close> yet.
\<close>

definition new_field :: "bool \<Rightarrow> string \<Rightarrow> string option \<Rightarrow> tid \<Rightarrow> field" where
  "new_field d n lname t =
     \<lparr>f_pname = n, f_lname = or_default lname n, f_is_derived = d,
      f_table = Some t, f_expression = None, f_sources = None\<rparr>"

definition registered :: "state \<Rightarrow> tid \<Rightarrow> string \<Rightarrow> table list" where
  "registered s t n =
     (heap_tables s)[t := (heap_tables s ! t)
        \<lparr>t_fields := t_fields (heap_tables s ! t) @ [(n, length (heap_fields s))]\<rparr>]"

definition half_built :: "state \<Rightarrow> tid \<Rightarrow> string \<Rightarrow> string \<Rightarrow> string option \<Rightarrow> state" where
  "half_built s t n e lname =
     s\<lparr>heap_tables := registered s t n,
       heap_fields := heap_fields s @ [(new_field True n lname t)\<lparr>f_expression := Some e\<rparr>]\<rparr>"

text \<open>A source table \<open>a\<close> with the fields \<open>id\<close> and \<open>vendor_id\<close>, and a derived
  table \<open>b\<close> over it with its build scope open.\<close>

definition b_open_scene :: state where
  "b_open_scene =
     snd (and_then (RawTable ''schema'' ''a'' None None) (\<lambda>a.
          and_then (table_enter a) (\<lambda>u.
          and_then (RawField ''id'' None) (\<lambda>f_id.
          and_then (RawField ''vendor_id'' None) (\<lambda>f_vendor.
          and_then (table_exit a) (\<lambda>u.
          and_then (DerivedTable ''schema'' ''b'' [a] ''{a}'' None None) (\<lambda>b.
          table_enter b)))))) initial_state)"

text \<open>The source table \<open>table_1\<close> with alias \<open>t1\<close> and the field \<open>income\<close>, and a
  derived table over it with its build scope open.\<close>

definition income_scene :: state where
  "income_scene =
     snd (and_then (RawTable ''main'' ''table_1'' (Some ''Table 1'') (Some ''t1'')) (\<lambda>t1.
          and_then (table_enter t1) (\<lambda>u.
          and_then (RawField ''income'' (Some ''Customer Income'')) (\<lambda>f_income.
          and_then (table_exit t1) (\<lambda>u.
          and_then (DerivedTable ''main'' ''table_2'' [t1] ''{t1}'' (Some ''Table 2'') (Some ''t2'')) (\<lambda>t2.
          table_enter t2))))) initial_state)"

text \<open>The compilation scenario: in the scope of \<open>b\<close> the derived field \<open>id\<close> is
  created from \<open>{a.id}\<close> and the scope is closed; then the grouping key is set
  to the field \<open>vendor_id\<close>.\<close>

definition compiled_scene_plain :: state where
  "compiled_scene_plain =
     snd (and_then (DerivedField ''id'' ''{a.id}'' None) (\<lambda>f. table_exit 1) b_open_scene)"

definition compiled_scene :: state where
  "compiled_scene = snd (groupby 1 [1] compiled_scene_plain)"


text \<open>
  The direct sources of a field were resolved when the field was created, from
  tables that existed before its own table. In the store this reads: every
  field named in the \<open>_sources\<close> of a field has a smaller identifier. It is what
  makes the recursion of \<open>get_lineage\<close> end without a cycle guard.
\<close>

definition sources_older :: "state \<Rightarrow> bool" where
  "sources_older s =
     (\<forall>f < length (heap_fields s). \<forall>srcs. f_sources (heap_fields s ! f) = Some srcs \<longrightarrow>
        (\<forall>g. OField g \<in> set srcs \<longrightarrow> g < f))"











section \<open>Scope discipline of field construction\<close>

lemma set_table_no_scope:
  "CURRENT_TABLE_CONTEXT s = [] \<Longrightarrow>
   set_table f s = (Inl (NoTableContextSetException (f_pname (heap_fields s ! f))), s)"
  by (simp add: set_table_def)

lemma BaseField_init_no_scope:
  assumes "CURRENT_TABLE_CONTEXT s = []"
  shows "fst (BaseField_init d pname lname s) = Inl (NoTableContextSetException pname)"
    and "heap_tables (snd (BaseField_init d pname lname s)) = heap_tables s"
    and "CURRENT_TABLE_CONTEXT (snd (BaseField_init d pname lname s)) = []"
  using assms by (simp_all add: BaseField_init_def Let_def set_table_no_scope)

text \<open>
  Claim C7. With no build scope open, constructing a source field or a derived
  field raises \<open>NoTableContextSetException\<close> (the spec's \<open>NoScopeOpen\<close>)
  carrying the field's physical name, and the store of tables, hence every
  table's field mapping, is what it was before the call.
\<close>

theorem C7_no_scope_open:
  assumes "CURRENT_TABLE_CONTEXT s = []"
  shows "fst (RawField pname lname s) = Inl (NoTableContextSetException pname)
       \<and> heap_tables (snd (RawField pname lname s)) = heap_tables s
       \<and> fst (DerivedField pname expression lname s) = Inl (NoTableContextSetException pname)
       \<and> heap_tables (snd (DerivedField pname expression lname s)) = heap_tables s"
proof -
  obtain r s1 where b: "BaseField_init True pname lname s = (r, s1)" by force
  from BaseField_init_no_scope [OF assms, of True pname lname] b
  have "r = Inl (NoTableContextSetException pname)" "heap_tables s1 = heap_tables s" by simp_all
  then show ?thesis using assms b
    by (simp add: RawField_def DerivedField_def BaseField_init_no_scope)
qed

theorem C7_no_scope_open_witness:
  "CURRENT_TABLE_CONTEXT initial_state = []
   \<and> fst (RawField ''test_field_pname'' (Some ''test_field_lname'') initial_state)
       = Inl (NoTableContextSetException ''test_field_pname'')
   \<and> heap_tables (snd (RawField ''test_field_pname'' (Some ''test_field_lname'') initial_state)) = []
   \<and> fst (DerivedField ''test_field_pname'' ''abs({t1.income})'' (Some ''test_field_lname'') initial_state)
       = Inl (NoTableContextSetException ''test_field_pname'')
   \<and> heap_tables (snd (DerivedField ''test_field_pname'' ''abs({t1.income})'' (Some ''test_field_lname'') initial_state)) = []"
  using C7_no_scope_open [of initial_state "''test_field_pname''" "Some ''test_field_lname''" "''abs({t1.income})''"]
  by (simp add: initial_state_def)

section \<open>Uniqueness of field names within a table\<close>

lemma add_field_duplicate:
  "dict_contains (f_pname (heap_fields s ! f)) (t_fields (heap_tables s ! t)) \<Longrightarrow>
   add_field t f s = (Inl (DuplicatedFieldException t f), s)"
  by (simp add: add_field_def)

lemma BaseField_init_duplicate:
  assumes "CURRENT_TABLE_CONTEXT s = t # rest"
      and "dict_contains n (t_fields (heap_tables s ! t))"
  shows "BaseField_init d n lname s =
           (Inl (DuplicatedFieldException t (length (heap_fields s))),
            s\<lparr>heap_fields := heap_fields s @
                  [\<lparr>f_pname = n, f_lname = or_default lname n, f_is_derived = d,
                    f_table = None, f_expression = None, f_sources = None\<rparr>]\<rparr>)"
  using assms by (simp add: BaseField_init_def Let_def set_table_def add_field_duplicate)

lemma map_of_dict_contains: "map_of d k = Some v \<Longrightarrow> dict_contains k d"
  by (auto simp: dict_contains_def dest: map_of_SomeD intro: rev_image_eqI)

lemma one_field_scene_eq:
  "one_field_scene =
     \<lparr>heap_tables =
        [\<lparr>t_schema = ''test_schema'', t_pname = ''test_pname'', t_lname = ''test_lname'',
          t_alias = ''test_pname'', t_fields = [(''test_field_pname'', 0)], t_derived = None\<rparr>],
      heap_fields =
        [\<lparr>f_pname = ''test_field_pname'', f_lname = ''test_field_lname'', f_is_derived = False,
          f_table = Some 0, f_expression = None, f_sources = None\<rparr>],
      CURRENT_TABLE_CONTEXT = [0]\<rparr>"
  by (simp add: one_field_scene_def and_then_def RawTable_def table_enter_def RawField_def
        BaseField_init_def set_table_def add_field_def dict_contains_def initial_state_def
        BaseTable_init_def or_default_def Let_def)

text \<open>
  Claim C4. Let \<open>t\<close> be the table of the open build scope and let it already
  hold a field \<open>f\<close> under the physical name \<open>n\<close>. Creating another field
  named \<open>n\<close>, source or derived, raises \<open>DuplicatedFieldException\<close> for that
  table and the new field object; afterwards looking \<open>n\<close> up in \<open>t\<close> still
  returns \<open>f\<close>, the object \<open>f\<close> is unchanged, and so is every table.
\<close>

theorem C4_duplicate_field:
  assumes "CURRENT_TABLE_CONTEXT s = t # rest"
      and "map_of (t_fields (heap_tables s ! t)) n = Some f"
      and "f < length (heap_fields s)"
  shows "fst (RawField n lname s) = Inl (DuplicatedFieldException t (length (heap_fields s)))
       \<and> table_getitem (snd (RawField n lname s)) t (KStr n) = Inr f
       \<and> heap_fields (snd (RawField n lname s)) ! f = heap_fields s ! f
       \<and> heap_tables (snd (RawField n lname s)) = heap_tables s
       \<and> fst (DerivedField n expression lname s) = Inl (DuplicatedFieldException t (length (heap_fields s)))
       \<and> table_getitem (snd (DerivedField n expression lname s)) t (KStr n) = Inr f
       \<and> heap_fields (snd (DerivedField n expression lname s)) ! f = heap_fields s ! f
       \<and> heap_tables (snd (DerivedField n expression lname s)) = heap_tables s"
proof -
  have dc: "dict_contains n (t_fields (heap_tables s ! t))"
    using assms(2) by (rule map_of_dict_contains)
  show ?thesis
    using assms
    by (simp add: RawField_def DerivedField_def BaseField_init_duplicate [OF assms(1) dc]
                  table_getitem_def nth_append)
qed

theorem C4_duplicate_field_witness:
  "CURRENT_TABLE_CONTEXT one_field_scene = [0]
   \<and> map_of (t_fields (heap_tables one_field_scene ! 0)) ''test_field_pname'' = Some 0
   \<and> 0 < length (heap_fields one_field_scene)
   \<and> fst (RawField ''test_field_pname'' (Some ''test_field_lname'') one_field_scene)
        = Inl (DuplicatedFieldException 0 1)
   \<and> table_getitem (snd (RawField ''test_field_pname'' (Some ''test_field_lname'') one_field_scene)) 0
        (KStr ''test_field_pname'') = Inr 0
   \<and> heap_fields (snd (RawField ''test_field_pname'' (Some ''test_field_lname'') one_field_scene)) ! 0
        = heap_fields one_field_scene ! 0
   \<and> fst (DerivedField ''test_field_pname'' ''1'' None one_field_scene)
        = Inl (DuplicatedFieldException 0 1)
   \<and> table_getitem (snd (DerivedField ''test_field_pname'' ''1'' None one_field_scene)) 0
        (KStr ''test_field_pname'') = Inr 0"
  using C4_duplicate_field [of one_field_scene 0 "[]" "''test_field_pname''" 0 "Some ''test_field_lname''" "''1''"]
        C4_duplicate_field [of one_field_scene 0 "[]" "''test_field_pname''" 0 None "''1''"]
  by (simp add: one_field_scene_eq)

section \<open>The builder context holds at most one table\<close>

lemma add_field_context:
  "CURRENT_TABLE_CONTEXT (snd (add_field t f s)) = CURRENT_TABLE_CONTEXT s"
  by (simp add: add_field_def Let_def)

lemma set_table_context:
  "CURRENT_TABLE_CONTEXT (snd (set_table f s)) = CURRENT_TABLE_CONTEXT s"
  using add_field_context [of "hd (CURRENT_TABLE_CONTEXT s)" f s]
  by (auto simp: set_table_def Let_def split: prod.splits sum.splits)

lemma BaseField_init_context:
  "CURRENT_TABLE_CONTEXT (snd (BaseField_init d pname lname s)) = CURRENT_TABLE_CONTEXT s"
proof -
  let ?s1 = "s\<lparr>heap_fields := heap_fields s @
                  [\<lparr>f_pname = pname, f_lname = or_default lname pname,
                    f_is_derived = d, f_table = None,
                    f_expression = None, f_sources = None\<rparr>]\<rparr>"
  have "CURRENT_TABLE_CONTEXT (snd (set_table (length (heap_fields s)) ?s1)) = CURRENT_TABLE_CONTEXT s"
    using set_table_context [of "length (heap_fields s)" ?s1] by simp
  then show ?thesis
    by (auto simp: BaseField_init_def Let_def split: prod.splits sum.splits)
qed

lemma DerivedField_context:
  "CURRENT_TABLE_CONTEXT (snd (DerivedField pname expression lname s)) = CURRENT_TABLE_CONTEXT s"
  using BaseField_init_context [of True pname lname s]
  by (auto simp: DerivedField_def Let_def split: prod.splits sum.splits option.splits)

lemma groupby_context:
  "CURRENT_TABLE_CONTEXT (snd (groupby t fs s)) = CURRENT_TABLE_CONTEXT s"
  by (simp add: groupby_def Let_def split: option.splits)

lemma perform_depth:
  "length (CURRENT_TABLE_CONTEXT s) \<le> 1 \<Longrightarrow> length (CURRENT_TABLE_CONTEXT (perform c s)) \<le> 1"
proof (cases c)
  case (CallExit t)
  then show "length (CURRENT_TABLE_CONTEXT s) \<le> 1 \<Longrightarrow> ?thesis"
    by (cases "CURRENT_TABLE_CONTEXT s") (auto simp: table_exit_def)
qed (auto simp: RawTable_def DerivedTable_def table_enter_def RawField_def
          BaseField_init_context DerivedField_context groupby_context)

lemma run_calls_depth:
  "length (CURRENT_TABLE_CONTEXT s) \<le> 1 \<Longrightarrow> length (CURRENT_TABLE_CONTEXT (run_calls calls s)) \<le> 1"
proof (induction calls arbitrary: s)
  case Nil
  then show ?case by (simp add: run_calls_def)
next
  case (Cons c calls)
  have "length (CURRENT_TABLE_CONTEXT (perform c s)) \<le> 1"
    using Cons.prems by (rule perform_depth)
  then have "length (CURRENT_TABLE_CONTEXT (run_calls calls (perform c s))) \<le> 1"
    by (rule Cons.IH)
  then show ?case by (simp add: run_calls_def)
qed

text \<open>
  Claim C6. After any sequence of calls from the initial state
  \<open>CURRENT_TABLE_CONTEXT\<close> holds at most one table. It is empty initially.
  Entering a scope while the context is occupied raises the bare
  \<open>RuntimeError\<close> of \<open>__enter__\<close> (the spec's \<open>ScopeReentry\<close>) and leaves
  the whole state unchanged. When at most one table is held, a successful
  exit leaves the context empty, and every call keeps the depth at most one.
\<close>

theorem C6_context_depth:
  "length (CURRENT_TABLE_CONTEXT (run_calls calls initial_state)) \<le> 1
   \<and> CURRENT_TABLE_CONTEXT initial_state = []
   \<and> (CURRENT_TABLE_CONTEXT s \<noteq> [] \<longrightarrow> table_enter t s = (Inl RuntimeError, s))
   \<and> (length (CURRENT_TABLE_CONTEXT s) \<le> 1 \<longrightarrow> fst (table_exit t s) = Inr () \<longrightarrow>
        CURRENT_TABLE_CONTEXT (snd (table_exit t s)) = [])
   \<and> (length (CURRENT_TABLE_CONTEXT s) \<le> 1 \<longrightarrow> length (CURRENT_TABLE_CONTEXT (perform c s)) \<le> 1)"
proof -
  have a: "length (CURRENT_TABLE_CONTEXT (run_calls calls initial_state)) \<le> 1"
    by (rule run_calls_depth) (simp add: initial_state_def)
  have b: "length (CURRENT_TABLE_CONTEXT s) \<le> 1 \<Longrightarrow> fst (table_exit t s) = Inr () \<Longrightarrow>
        CURRENT_TABLE_CONTEXT (snd (table_exit t s)) = []"
    by (cases "CURRENT_TABLE_CONTEXT s") (auto simp: table_exit_def split: if_splits)
  show ?thesis using a b perform_depth [of s c]
    by (auto simp: initial_state_def table_enter_def)
qed

theorem C6_context_depth_witness:
  "length (CURRENT_TABLE_CONTEXT (run_calls
      [CallRawTable ''test_schema'' ''test_pname'' None None, CallEnter 0,
       CallRawField ''test_field_pname'' None, CallEnter 0, CallExit 0] initial_state)) \<le> 1
   \<and> CURRENT_TABLE_CONTEXT one_field_scene \<noteq> []
   \<and> table_enter 0 one_field_scene = (Inl RuntimeError, one_field_scene)
   \<and> length (CURRENT_TABLE_CONTEXT one_field_scene) \<le> 1
   \<and> fst (table_exit 0 one_field_scene) = Inr ()
   \<and> CURRENT_TABLE_CONTEXT (snd (table_exit 0 one_field_scene)) = []
   \<and> length (CURRENT_TABLE_CONTEXT (perform (CallEnter 0) one_field_scene)) \<le> 1"
  using C6_context_depth [of "[CallRawTable ''test_schema'' ''test_pname'' None None, CallEnter 0,
       CallRawField ''test_field_pname'' None, CallEnter 0, CallExit 0]" one_field_scene 0 "CallEnter 0"]
  by (simp add: one_field_scene_eq table_exit_def)

section \<open>The alias mapping of a derived table\<close>

lemma map_of_process_sources_from:
  "map_of (process_sources_from ts acc srcs) =
   map_of acc ++ map_of (rev (map (\<lambda>t. (t_alias (ts ! t), t)) srcs))"
  by (induction srcs arbitrary: acc) (auto simp: update_conv' map_add_def fun_eq_iff split: option.splits)

lemma map_of_rev_last:
  "map_of (rev (map (\<lambda>t. (g t, t)) srcs)) a =
   (case filter (\<lambda>t. g t = a) srcs of [] \<Rightarrow> None | u # us \<Rightarrow> Some (last (u # us)))"
  by (induction srcs rule: rev_induct) (auto split: list.splits)

lemma shared_alias_scene_eq:
  "shared_alias_scene =
     \<lparr>heap_tables =
        [\<lparr>t_schema = ''main'', t_pname = ''table_1'', t_lname = ''Table 1'', t_alias = ''a'',
          t_fields = [], t_derived = None\<rparr>,
         \<lparr>t_schema = ''main'', t_pname = ''table_3'', t_lname = ''Table 3'', t_alias = ''a'',
          t_fields = [], t_derived = None\<rparr>],
      heap_fields = [], CURRENT_TABLE_CONTEXT = []\<rparr>"
  by (simp add: shared_alias_scene_def and_then_def RawTable_def initial_state_def
        BaseTable_init_def or_default_def)

text \<open>
  Claim C8, as stated, fails: with two sources that share the alias \<open>a\<close> the
  constructor returns the new table, and its mapping has the one entry
  \<open>a\<close>, bound to the second source.
\<close>

theorem C8_duplicate_alias_counterexample:
  "t_alias (heap_tables shared_alias_scene ! 0) = t_alias (heap_tables shared_alias_scene ! 1)
   \<and> fst (DerivedTable ''main'' ''table_2'' [0, 1] ''{a}'' None None shared_alias_scene) = Inr 2
   \<and> t_derived (heap_tables (snd (DerivedTable ''main'' ''table_2'' [0, 1] ''{a}'' None None
                   shared_alias_scene)) ! 2)
        = Some \<lparr>d_groupby = [], d_sources = [(''a'', 1)], d_from_expression = ''{a}''\<rparr>"
  by (simp add: shared_alias_scene_eq DerivedTable_def process_sources_def BaseTable_init_def
        or_default_def)

text \<open>
  Claim C8, amended. Creating a derived table from a list of source tables
  never raises. Its \<open>_sources\<close> mapping is keyed by each source's own alias:
  an alias is bound exactly when some source in the list has it, and it is
  bound to the last source in the list that has it.
\<close>

theorem C8_sources_mapping:
  "fst (DerivedTable schema pname srcs from_expr lname alias s) = Inr (length (heap_tables s))
   \<and> t_derived (heap_tables (snd (DerivedTable schema pname srcs from_expr lname alias s))
                  ! length (heap_tables s))
       = Some \<lparr>d_groupby = [], d_sources = process_sources s srcs, d_from_expression = from_expr\<rparr>
   \<and> map_of (process_sources s srcs) a =
       (case filter (\<lambda>t. t_alias (heap_tables s ! t) = a) srcs of
          [] \<Rightarrow> None | u # us \<Rightarrow> Some (last (u # us)))"
  by (simp add: DerivedTable_def process_sources_def map_of_process_sources_from map_of_rev_last
        BaseTable_init_def)


theorem C8_sources_mapping_witness:
  "fst (DerivedTable ''main'' ''table_2'' [0, 1] ''{a}'' None None shared_alias_scene) = Inr 2
   \<and> map_of (process_sources shared_alias_scene [0, 1]) ''a'' = Some 1
   \<and> map_of (process_sources shared_alias_scene [0, 1]) ''b'' = None"
  using C8_sources_mapping [of "''main''" "''table_2''" "[0, 1]" "''{a}''" None None shared_alias_scene "''a''"]
        C8_sources_mapping [of "''main''" "''table_2''" "[0, 1]" "''{a}''" None None shared_alias_scene "''b''"]
  by (simp add: shared_alias_scene_eq)

section \<open>Registration comes before resolution\<close>

lemma update_fresh_key:
  "k \<notin> set (map fst al) \<Longrightarrow> AList.update k v al = al @ [(k, v)]"
  by (induction al) auto

lemma BaseField_init_fresh:
  assumes "CURRENT_TABLE_CONTEXT s = t # rest"
      and "\<not> dict_contains n (t_fields (heap_tables s ! t))"
  shows "BaseField_init d n lname s =
           (Inr (length (heap_fields s)),
            s\<lparr>heap_fields := heap_fields s @ [new_field d n lname t],
              heap_tables := registered s t n\<rparr>)"
  using assms
  by (simp add: BaseField_init_def Let_def set_table_def add_field_def new_field_def
        registered_def update_fresh_key dict_contains_def)

lemma DerivedField_fresh:
  assumes "CURRENT_TABLE_CONTEXT s = t # rest"
      and "\<not> dict_contains n (t_fields (heap_tables s ! t))"
  shows "heap_tables (snd (DerivedField n e lname s)) = registered s t n"
    and "CURRENT_TABLE_CONTEXT (snd (DerivedField n e lname s)) = t # rest"
    and "length (heap_fields (snd (DerivedField n e lname s))) = Suc (length (heap_fields s))"
  using assms
  by (auto simp: DerivedField_def BaseField_init_fresh [OF assms] Let_def new_field_def
           split: sum.splits option.splits)

lemma registered_lookup:
  assumes "t < length (heap_tables s)"
      and "\<not> dict_contains n (t_fields (heap_tables s ! t))"
  shows "map_of (t_fields (registered s t n ! t)) n = Some (length (heap_fields s))"
  using assms
  by (simp add: registered_def dict_contains_def map_of_eq_None_iff [THEN iffD2] map_add_def)

lemma DerivedField_unfold:
  assumes "CURRENT_TABLE_CONTEXT s = t # rest"
      and "\<not> dict_contains n (t_fields (heap_tables s ! t))"
  shows "DerivedField n e lname s =
           (case table_sources_attr (half_built s t n e lname) t of
              Inl err \<Rightarrow> (Inl err, half_built s t n e lname)
            | Inr ctx \<Rightarrow>
                (case get_fields_from_expr (half_built s t n e lname) e ctx of
                   Inl err \<Rightarrow> (Inl err, half_built s t n e lname)
                 | Inr srcs \<Rightarrow>
                     (Inr (length (heap_fields s)),
                      (half_built s t n e lname)
                        \<lparr>heap_fields := heap_fields s @
                           [(new_field True n lname t)\<lparr>f_expression := Some e, f_sources := Some srcs\<rparr>]\<rparr>)))"
  by (simp add: DerivedField_def BaseField_init_fresh [OF assms] Let_def half_built_def new_field_def
           split: sum.splits)

lemma half_built_simps:
  "heap_tables (half_built s t n e lname) = registered s t n"
  "heap_fields (half_built s t n e lname) =
     heap_fields s @ [(new_field True n lname t)\<lparr>f_expression := Some e\<rparr>]"
  "CURRENT_TABLE_CONTEXT (half_built s t n e lname) = CURRENT_TABLE_CONTEXT s"
  by (simp_all add: half_built_def)

lemma registered_nth:
  "t < length (heap_tables s) \<Longrightarrow>
   registered s t n ! t =
     (heap_tables s ! t)\<lparr>t_fields := t_fields (heap_tables s ! t) @ [(n, length (heap_fields s))]\<rparr>"
  "u \<noteq> t \<Longrightarrow> registered s t n ! u = heap_tables s ! u"
  by (simp_all add: registered_def)

lemmas build_defs =
  and_then_def RawTable_def DerivedTable_def table_enter_def table_exit_def RawField_def
  BaseField_init_def set_table_def add_field_def dict_contains_def initial_state_def
  BaseTable_init_def or_default_def process_sources_def Let_def

lemma b_open_scene_eq:
  "b_open_scene =
     \<lparr>heap_tables =
        [\<lparr>t_schema = ''schema'', t_pname = ''a'', t_lname = ''a'', t_alias = ''a'',
          t_fields = [(''id'', 0), (''vendor_id'', 1)], t_derived = None\<rparr>,
         \<lparr>t_schema = ''schema'', t_pname = ''b'', t_lname = ''b'', t_alias = ''b'',
          t_fields = [],
          t_derived = Some \<lparr>d_groupby = [], d_sources = [(''a'', 0)], d_from_expression = ''{a}''\<rparr>\<rparr>],
      heap_fields =
        [\<lparr>f_pname = ''id'', f_lname = ''id'', f_is_derived = False,
          f_table = Some 0, f_expression = None, f_sources = None\<rparr>,
         \<lparr>f_pname = ''vendor_id'', f_lname = ''vendor_id'', f_is_derived = False,
          f_table = Some 0, f_expression = None, f_sources = None\<rparr>],
      CURRENT_TABLE_CONTEXT = [1]\<rparr>"
  by (simp add: b_open_scene_def build_defs)

lemmas resolve_defs =
  DerivedField_def get_fields_from_expr_def table_sources_attr_def table_getattr_def
  table_getitem_def get_field_def split_first_def get_integer_def get_value_def as_key_def
  is_name_end_def is_ascii_def is_digit_def is_brace_def parse_field_def py_getattr_def py_getitem_def
  table_native_attr_def field_native_attr_def set_add_def

text \<open>
  Claim C9. Let \<open>t\<close> be the table of the open scope and \<open>n\<close> a name it does
  not hold yet. If creating the derived field \<open>n\<close> raises, for instance
  \<open>KeyError\<close> for an unknown alias or \<open>UndefinedFieldException\<close> for an
  unknown field name, the field is in the table's mapping all the same, and
  creating a field named \<open>n\<close> on that table afterwards raises
  \<open>DuplicatedFieldException\<close>.
\<close>

theorem C9_registered_before_resolution:
  assumes "CURRENT_TABLE_CONTEXT s = t # rest"
      and "t < length (heap_tables s)"
      and "\<not> dict_contains n (t_fields (heap_tables s ! t))"
      and "fst (DerivedField n e lname s) = Inl err"
  shows "table_getitem (snd (DerivedField n e lname s)) t (KStr n) = Inr (length (heap_fields s))
       \<and> fst (RawField n lname2 (snd (DerivedField n e lname s)))
           = Inl (DuplicatedFieldException t (Suc (length (heap_fields s))))
       \<and> fst (DerivedField n e2 lname2 (snd (DerivedField n e lname s)))
           = Inl (DuplicatedFieldException t (Suc (length (heap_fields s))))"
proof -
  let ?s' = "snd (DerivedField n e lname s)"
  note st = DerivedField_fresh [OF assms(1) assms(3), of e lname]
  have look: "map_of (t_fields (heap_tables ?s' ! t)) n = Some (length (heap_fields s))"
    using registered_lookup [OF assms(2) assms(3)] st(1) by simp
  then have dc: "dict_contains n (t_fields (heap_tables ?s' ! t))"
    by (rule map_of_dict_contains)
  have "BaseField_init d n lname2 ?s' =
           (Inl (DuplicatedFieldException t (length (heap_fields ?s'))),
            ?s'\<lparr>heap_fields := heap_fields ?s' @
                  [\<lparr>f_pname = n, f_lname = or_default lname2 n, f_is_derived = d,
                    f_table = None, f_expression = None, f_sources = None\<rparr>]\<rparr>)" for d
    using st(2) dc by (rule BaseField_init_duplicate)
  then show ?thesis
    using look st(3) by (simp add: table_getitem_def RawField_def DerivedField_def)
qed

theorem C9_registered_before_resolution_witness:
  "CURRENT_TABLE_CONTEXT b_open_scene = [1]
   \<and> 1 < length (heap_tables b_open_scene)
   \<and> \<not> dict_contains ''id'' (t_fields (heap_tables b_open_scene ! 1))
   \<and> fst (DerivedField ''id'' ''{x.id}'' None b_open_scene) = Inl (KeyError ''x'')
   \<and> table_getitem (snd (DerivedField ''id'' ''{x.id}'' None b_open_scene)) 1 (KStr ''id'') = Inr 2
   \<and> fst (DerivedField ''id'' ''{a.id}'' None (snd (DerivedField ''id'' ''{x.id}'' None b_open_scene)))
        = Inl (DuplicatedFieldException 1 3)
   \<and> fst (DerivedField ''id'' ''{a.nope}'' None b_open_scene)
        = Inl (UndefinedFieldException 0 (KStr ''nope''))
   \<and> fst (RawField ''id'' None (snd (DerivedField ''id'' ''{a.nope}'' None b_open_scene)))
        = Inl (DuplicatedFieldException 1 3)"
proof -
  have c: "CURRENT_TABLE_CONTEXT b_open_scene = [1]" "1 < length (heap_tables b_open_scene)"
          "\<not> dict_contains ''id'' (t_fields (heap_tables b_open_scene ! 1))"
    by (simp_all add: b_open_scene_eq dict_contains_def)
  have e1: "fst (DerivedField ''id'' ''{x.id}'' None b_open_scene) = Inl (KeyError ''x'')"
    by (simp add: b_open_scene_eq build_defs resolve_defs)
  have e2: "fst (DerivedField ''id'' ''{a.nope}'' None b_open_scene)
              = Inl (UndefinedFieldException 0 (KStr ''nope''))"
    by (simp add: b_open_scene_eq build_defs resolve_defs)
  have l: "length (heap_fields b_open_scene) = 2" by (simp add: b_open_scene_eq)
  show ?thesis
    using C9_registered_before_resolution [OF c e1, of None "''{a.id}''"]
          C9_registered_before_resolution [OF c e2, of None "''{a.id}''"] c e1 e2 l
    by simp
qed

section \<open>Expressions without placeholders\<close>

lemma resolve_items_no_names:
  "\<forall>it \<in> set items. field_name it = None \<Longrightarrow>
   resolve_items s ctx items err acc = (case err of None \<Rightarrow> Inr acc | Some e \<Rightarrow> Inl e)"
  by (induction items) auto

lemma lineage_loop_Nil: "lineage_loop s lineage [] = Some (Inr lineage)"
  by (subst lineage_loop.simps) simp

text \<open>
  Claim C10, as stated, fails: an expression without placeholders need not be
  well-formed format text. The expression \<open>}\<close> names no placeholder, yet
  creating a derived field from it raises the \<open>ValueError\<close> of the format
  parser. And in the scope of a \<open>RawTable\<close>, which has no \<open>_sources\<close>, the
  constant expression \<open>1\<close> raises \<open>UndefinedFieldException\<close>.
\<close>

theorem C10_unbalanced_brace_counterexample:
  "CURRENT_TABLE_CONTEXT b_open_scene = [1]
   \<and> \<not> dict_contains ''one'' (t_fields (heap_tables b_open_scene ! 1))
   \<and> formatter_parse ''}'' = ([], Some ValueError)
   \<and> fst (DerivedField ''one'' ''}'' None b_open_scene) = Inl ValueError
   \<and> CURRENT_TABLE_CONTEXT one_field_scene = [0]
   \<and> fst (DerivedField ''one'' ''1'' None one_field_scene)
        = Inl (UndefinedFieldException 0 (KStr ''_sources''))"
  by (simp add: b_open_scene_eq one_field_scene_eq build_defs resolve_defs)

text \<open>
  Claim C10, amended. In the build scope of a derived table, under a name the
  table does not hold yet, a derived field whose expression is well-formed
  format text without placeholders (the format parser accepts it and yields
  only tuples that carry no field name, as for a constant expression without
  braces) is created successfully, its direct-source set is empty, and its
  lineage is the empty set, not the set holding the field itself.
\<close>

theorem C10_no_placeholders:
  assumes "CURRENT_TABLE_CONTEXT s = t # rest"
      and "t < length (heap_tables s)"
      and "\<not> dict_contains n (t_fields (heap_tables s ! t))"
      and "t_derived (heap_tables s ! t) = Some d"
      and "formatter_parse e = (items, None)"
      and "\<forall>it \<in> set items. field_name it = None"
  shows "fst (DerivedField n e lname s) = Inr (length (heap_fields s))
       \<and> f_sources (heap_fields (snd (DerivedField n e lname s)) ! length (heap_fields s)) = Some []
       \<and> get_sources (snd (DerivedField n e lname s)) (length (heap_fields s)) = Inr {}
       \<and> get_lineage (snd (DerivedField n e lname s)) (length (heap_fields s)) = Some (Inr {})"
proof -
  have tsa: "table_sources_attr (half_built s t n e lname) t = Inr (CDict (d_sources d))"
    using assms(2,4) by (simp add: table_sources_attr_def half_built_simps registered_nth)
  have gf: "get_fields_from_expr s' e ctx = Inr []" for s' ctx
    using assms(5,6) by (simp add: get_fields_from_expr_def resolve_items_no_names)
  show ?thesis
    by (simp add: DerivedField_unfold [OF assms(1) assms(3)] tsa gf new_field_def
          get_sources_def get_lineage_def lineage_loop_Nil)
qed

theorem C10_no_placeholders_witness:
  "CURRENT_TABLE_CONTEXT b_open_scene = [1]
   \<and> formatter_parse ''1'' = ([FmtItem ''1'' None None None], None)
   \<and> fst (DerivedField ''one'' ''1'' None b_open_scene) = Inr 2
   \<and> get_sources (snd (DerivedField ''one'' ''1'' None b_open_scene)) 2 = Inr {}
   \<and> get_lineage (snd (DerivedField ''one'' ''1'' None b_open_scene)) 2 = Some (Inr {})"
proof -
  have c: "CURRENT_TABLE_CONTEXT b_open_scene = [1]" "1 < length (heap_tables b_open_scene)"
          "\<not> dict_contains ''one'' (t_fields (heap_tables b_open_scene ! 1))"
          "t_derived (heap_tables b_open_scene ! 1)
             = Some \<lparr>d_groupby = [], d_sources = [(''a'', 0)], d_from_expression = ''{a}''\<rparr>"
    by (simp_all add: b_open_scene_eq dict_contains_def)
  have p: "formatter_parse ''1'' = ([FmtItem ''1'' None None None], None)"
    by (simp add: is_brace_def)
  have q: "\<forall>it \<in> set [FmtItem ''1'' None None None]. field_name it = None" by simp
  have l: "length (heap_fields b_open_scene) = 2" by (simp add: b_open_scene_eq)
  show ?thesis
    using C10_no_placeholders [OF c p q, of None] c p l by simp
qed

section \<open>A placeholder whose alias is not a source\<close>

lemma split_first_alias:
  assumes "\<forall>c \<in> set x. \<not> is_name_end c"
      and "tail = [] \<or> is_name_end (hd tail)"
  shows "split_first (x @ tail) = (x, tail)"
proof (cases tail)
  case Nil
  then show ?thesis using assms(1) by (simp add: split_first_def)
next
  case (Cons c cs)
  then have "is_name_end c" using assms(2) by simp
  then show ?thesis using assms(1) Cons
    by (simp add: split_first_def takeWhile_append2 dropWhile_append2)
qed

lemma get_field_absent_alias:
  assumes "\<forall>c \<in> set x. \<not> is_name_end c"
      and "tail = [] \<or> is_name_end (hd tail)"
      and "map_of d x = None"
  shows "get_field s (x @ tail) (CDict d) =
           (case get_integer x of
              Inl e \<Rightarrow> Inl e
            | Inr None \<Rightarrow> Inl (KeyError x)
            | Inr (Some k) \<Rightarrow> Inl IndexError)"
  using assms(3)
  by (simp add: get_field_def split_first_alias [OF assms(1,2)] as_key_def get_value_def
           split: sum.splits option.splits)

lemma resolve_items_fails_at:
  assumes "\<forall>it \<in> set pre. field_name it = None \<or> field_name it = Some []
             \<or> (\<exists>name obj. field_name it = Some name \<and> get_field s name ctx = Inr obj)"
      and "field_name item = Some name"
      and "name \<noteq> []"
      and "get_field s name ctx = Inl e"
  shows "resolve_items s ctx (pre @ item # post) err acc = Inl e"
  using assms(1)
proof (induction pre arbitrary: acc)
  case Nil
  then show ?case using assms(2,3,4) by simp
next
  case (Cons it pre)
  then have rest: "resolve_items s ctx (pre @ item # post) err acc' = Inl e" for acc'
    by simp
  from Cons.prems consider
      "field_name it = None" | "field_name it = Some []"
    | name' obj where "field_name it = Some name'" "name' \<noteq> []"
                      "get_field s name' ctx = Inr obj"
    by (cases "field_name it") auto
  then show ?case
    by cases (simp_all add: rest)
qed

text \<open>
  Claim C5, as stated, fails: resolving \<open>{x.id}\<close> against sources that know
  only the alias \<open>a\<close> raises the built-in \<open>KeyError\<close> of the dict lookup,
  both in \<open>get_fields_from_expr\<close> and in the \<open>DerivedField\<close> constructor.
  \<open>UnregisteredSourceException\<close> is raised by \<open>DerivedTable.get_source\<close>
  only, which the resolver does not call. An alias written in digits, as in
  \<open>{2020.id}\<close>, is not looked up at all: it is a positional index and raises
  \<open>IndexError\<close>.
\<close>

theorem C5_unregistered_source_counterexample:
  "map_of [(''a'', 0::nat)] ''x'' = None
   \<and> get_fields_from_expr b_open_scene ''{x.id}'' (CDict [(''a'', 0)]) = Inl (KeyError ''x'')
   \<and> fst (DerivedField ''id'' ''{x.id}'' None b_open_scene) = Inl (KeyError ''x'')
   \<and> fst (DerivedField ''id'' ''{x.id}'' None b_open_scene)
        \<noteq> Inl (UnregisteredSourceException 1 ''x'')
   \<and> get_source b_open_scene 1 ''x'' = Inl (UnregisteredSourceException 1 ''x'')
   \<and> map_of [(''a'', 0::nat)] ''2020'' = None
   \<and> get_fields_from_expr b_open_scene ''{2020.id}'' (CDict [(''a'', 0)]) = Inl IndexError"
  by (simp add: b_open_scene_eq build_defs resolve_defs get_source_def digit_val_def
        PY_SSIZE_T_MAX_def)

text \<open>
  Claim C5, amended. Let the alias \<open>x\<close> of a placeholder \<open>{x}\<close>, \<open>{x.field}\<close>
  or \<open>{x[key]}\<close> be absent from the sources mapping. If \<open>x\<close> is not read as
  a number (its first character that is not a digit \<open>0\<close> to \<open>9\<close> is an ASCII
  character, and the digits before it stay within the index range), resolving
  the placeholder raises \<open>KeyError\<close> carrying \<open>x\<close>; if \<open>x\<close> is a decimal
  number, it raises \<open>IndexError\<close>. \<open>get_fields_from_expr\<close> raises that
  \<open>KeyError\<close> for any expression in which this placeholder, with or without a
  conversion or a format spec, is reached: the placeholders parsed before it
  are unnamed or resolve.
\<close>

theorem C5_unknown_alias:
  assumes "\<forall>c \<in> set x. \<not> is_name_end c"
      and "tail = [] \<or> is_name_end (hd tail)"
      and "map_of d x = None"
  shows "(get_integer x = Inr None \<longrightarrow> get_field s (x @ tail) (CDict d) = Inl (KeyError x))
       \<and> (get_integer x = Inr (Some k) \<longrightarrow> get_field s (x @ tail) (CDict d) = Inl IndexError)
       \<and> (get_integer x = Inr None \<longrightarrow>
            formatter_parse e = (pre @ item # post, err) \<longrightarrow>
            field_name item = Some (x @ tail) \<longrightarrow> x @ tail \<noteq> [] \<longrightarrow>
            (\<forall>it \<in> set pre. field_name it = None \<or> field_name it = Some []
               \<or> (\<exists>name obj. field_name it = Some name \<and> get_field s name (CDict d) = Inr obj)) \<longrightarrow>
            get_fields_from_expr s e (CDict d) = Inl (KeyError x))"
proof -
  note gf = get_field_absent_alias [OF assms, of s]
  have a: "get_integer x = Inr None \<Longrightarrow> get_field s (x @ tail) (CDict d) = Inl (KeyError x)"
    by (simp add: gf)
  have b: "get_integer x = Inr (Some k) \<Longrightarrow> get_field s (x @ tail) (CDict d) = Inl IndexError"
    by (simp add: gf)
  have c: "get_fields_from_expr s e (CDict d) = Inl (KeyError x)"
    if "get_integer x = Inr None" "formatter_parse e = (pre @ item # post, err)"
       "field_name item = Some (x @ tail)" "x @ tail \<noteq> []"
       "\<forall>it \<in> set pre. field_name it = None \<or> field_name it = Some []
          \<or> (\<exists>name obj. field_name it = Some name \<and> get_field s name (CDict d) = Inr obj)"
  proof -
    have "resolve_items s (CDict d) (pre @ item # post) err [] = Inl (KeyError x)"
      using that(5,3,4) a [OF that(1)] by (rule resolve_items_fails_at)
    then show ?thesis using that(2) by (simp add: get_fields_from_expr_def)
  qed
  show ?thesis using a b c by blast
qed

theorem C5_unknown_alias_witness:
  "get_integer ''x'' = Inr None
   \<and> get_field b_open_scene ''x.id'' (CDict [(''a'', 0)]) = Inl (KeyError ''x'')
   \<and> get_integer ''2020'' = Inr (Some 2020)
   \<and> get_field b_open_scene ''2020[id]'' (CDict [(''a'', 0)]) = Inl IndexError
   \<and> formatter_parse ''abs({a.id}) + {x.id!r:>8}'' =
        ([FmtItem ''abs('' (Some ''a.id'') (Some []) None]
         @ FmtItem '') + '' (Some ''x.id'') (Some ''>8'') (Some CHR ''r'') # [], None)
   \<and> get_field b_open_scene ''a.id'' (CDict [(''a'', 0)]) = Inr (OField 0)
   \<and> get_fields_from_expr b_open_scene ''abs({a.id}) + {x.id!r:>8}'' (CDict [(''a'', 0)])
        = Inl (KeyError ''x'')"
proof -
  have h: "\<forall>c \<in> set ''x''. \<not> is_name_end c" "''.id'' = [] \<or> is_name_end (hd ''.id'')"
          "map_of [(''a'', 0::nat)] ''x'' = None"
    by (simp_all add: is_name_end_def)
  have n: "\<forall>c \<in> set ''2020''. \<not> is_name_end c" "''[id]'' = [] \<or> is_name_end (hd ''[id]'')"
          "map_of [(''a'', 0::nat)] ''2020'' = None"
    by (simp_all add: is_name_end_def)
  have ix: "get_integer ''x'' = Inr None"
    by (simp add: get_integer_def is_ascii_def is_digit_def)
  have i2020: "get_integer ''2020'' = Inr (Some 2020)"
    by (simp add: get_integer_def is_ascii_def is_digit_def digit_val_def PY_SSIZE_T_MAX_def)
  have p: "formatter_parse ''abs({a.id}) + {x.id!r:>8}'' =
        ([FmtItem ''abs('' (Some ''a.id'') (Some []) None]
         @ FmtItem '') + '' (Some ''x.id'') (Some ''>8'') (Some CHR ''r'') # [], None)"
    by (simp add: is_brace_def parse_field_def)
  have g: "get_field b_open_scene ''a.id'' (CDict [(''a'', 0)]) = Inr (OField 0)"
    by (simp add: b_open_scene_eq resolve_defs)
  show ?thesis
    using C5_unknown_alias [OF h, of b_open_scene 0 "''abs({a.id}) + {x.id!r:>8}''"
            "[FmtItem ''abs('' (Some ''a.id'') (Some []) None]"
            "FmtItem '') + '' (Some ''x.id'') (Some ''>8'') (Some CHR ''r'')" "[]" None]
          C5_unknown_alias [OF n, of b_open_scene 2020]
          ix i2020 p g
    by simp
qed

section \<open>Resolution and rendering of a derived field\<close>

lemmas format_defs =
  py_format_def format_get_field_def render_field_def py_str_def get_expression_def
  get_sources_def

lemma parse_abs_income:
  "formatter_parse ''abs({t1.income})'' =
     ([FmtItem ''abs('' (Some ''t1.income'') (Some []) None, FmtItem '')'' None None None], None)"
  by (simp add: is_brace_def parse_field_def)

lemma rest_income: "field_name_rest ''.income'' = ([(True, KStr ''income'')], None)"
  by (simp add: is_name_end_def)

lemma split_t1: "split_first ''t1.income'' = (''t1'', ''.income'')"
  by (simp add: split_first_def is_name_end_def)

lemma int_t1: "get_integer ''t1'' = Inr None"
  by (simp add: get_integer_def is_ascii_def is_digit_def)

lemma income_scene_eq:
  "income_scene =
     \<lparr>heap_tables =
        [\<lparr>t_schema = ''main'', t_pname = ''table_1'', t_lname = ''Table 1'', t_alias = ''t1'',
          t_fields = [(''income'', 0)], t_derived = None\<rparr>,
         \<lparr>t_schema = ''main'', t_pname = ''table_2'', t_lname = ''Table 2'', t_alias = ''t2'',
          t_fields = [],
          t_derived = Some \<lparr>d_groupby = [], d_sources = [(''t1'', 0)], d_from_expression = ''{t1}''\<rparr>\<rparr>],
      heap_fields =
        [\<lparr>f_pname = ''income'', f_lname = ''Customer Income'', f_is_derived = False,
          f_table = Some 0, f_expression = None, f_sources = None\<rparr>],
      CURRENT_TABLE_CONTEXT = [1]\<rparr>"
  by (simp add: income_scene_def build_defs)

lemma income_scene_field:
  "DerivedField ''abs_income'' ''abs({t1.income})'' None income_scene =
     (Inr 1, income_scene
        \<lparr>heap_tables := (heap_tables income_scene)
            [1 := (heap_tables income_scene ! 1)\<lparr>t_fields := [(''abs_income'', 1)]\<rparr>],
         heap_fields := heap_fields income_scene @
            [\<lparr>f_pname = ''abs_income'', f_lname = ''abs_income'', f_is_derived = True,
              f_table = Some 1, f_expression = Some ''abs({t1.income})'',
              f_sources = Some [OField 0]\<rparr>]\<rparr>)"
  by (simp add: income_scene_eq build_defs resolve_defs)

text \<open>
  Claim C2, as stated, fails on the text: for the field \<open>abs_income\<close> with
  expression \<open>abs({t1.income})\<close> the code returns
  \<open>abs(t1.income) as abs_income\<close>, with the keyword in lower case, which is
  not the string \<open>abs(t1.income) AS abs_income\<close>.
\<close>

theorem C2_uppercase_as_counterexample:
  "fst (DerivedField ''abs_income'' ''abs({t1.income})'' None income_scene) = Inr 1
   \<and> get_expression (snd (DerivedField ''abs_income'' ''abs({t1.income})'' None income_scene)) 1
        = Inr ''abs(t1.income) as abs_income''
   \<and> get_expression (snd (DerivedField ''abs_income'' ''abs({t1.income})'' None income_scene)) 1
        \<noteq> Inr ''abs(t1.income) AS abs_income''"
  by (simp add: income_scene_field)
     (simp add: income_scene_eq format_defs table_sources_attr_def split_first_def
        is_name_end_def get_integer_def is_ascii_def is_digit_def is_brace_def parse_field_def
        py_getattr_def table_native_attr_def table_getattr_def table_getitem_def)

text \<open>
  Claim C2, amended. Let a derived table with its scope open have, under the
  alias \<open>t1\<close>, a source table (another table, of alias \<open>t1\<close>) that holds a
  field named \<open>income\<close>. A derived field \<open>n\<close> created there with the
  expression \<open>abs({t1.income})\<close> has the expression text
  \<open>abs(t1.income) as n\<close>, with a lower-case \<open>as\<close>, and its direct sources are
  exactly the set holding that \<open>income\<close> field.
\<close>

theorem C2_resolution:
  assumes "CURRENT_TABLE_CONTEXT s = t # rest"
      and "t < length (heap_tables s)"
      and "\<not> dict_contains n (t_fields (heap_tables s ! t))"
      and "t_derived (heap_tables s ! t) = Some d"
      and "map_of (d_sources d) ''t1'' = Some src"
      and "src \<noteq> t"
      and "t_alias (heap_tables s ! src) = ''t1''"
      and "map_of (t_fields (heap_tables s ! src)) ''income'' = Some g"
      and "g < length (heap_fields s)"
      and "f_pname (heap_fields s ! g) = ''income''"
      and "f_table (heap_fields s ! g) = Some src"
  shows "fst (DerivedField n ''abs({t1.income})'' lname s) = Inr (length (heap_fields s))
       \<and> get_expression (snd (DerivedField n ''abs({t1.income})'' lname s)) (length (heap_fields s))
           = Inr (''abs(t1.income) as '' @ n)
       \<and> get_sources (snd (DerivedField n ''abs({t1.income})'' lname s)) (length (heap_fields s))
           = Inr {OField g}"
proof -
  let ?e = "''abs({t1.income})''"
  let ?h = "half_built s t n ?e lname"
  have tsa: "table_sources_attr ?h t = Inr (CDict (d_sources d))"
    using assms(2,4) by (simp add: table_sources_attr_def half_built_simps registered_nth)
  have src_tab: "heap_tables ?h ! src = heap_tables s ! src"
    using assms(6) by (simp add: half_built_simps registered_nth)
  have attr: "py_getattr s' (OTable src) ''income'' = Inr (OField g)"
    if "heap_tables s' ! src = heap_tables s ! src" for s'
    using that assms(8)
    by (simp add: py_getattr_def table_native_attr_def table_getattr_def table_getitem_def)
  have gf: "get_fields_from_expr ?h ?e (CDict (d_sources d)) = Inr [OField g]"
    using assms(5) attr [OF src_tab]
    by (simp add: get_fields_from_expr_def parse_abs_income get_field_def split_t1
          int_t1 as_key_def get_value_def rest_income set_add_def
          del: field_name_rest.simps formatter_parse.simps)
  let ?s' = "snd (DerivedField n ?e lname s)"
  have res: "DerivedField n ?e lname s =
      (Inr (length (heap_fields s)),
       ?h\<lparr>heap_fields := heap_fields s @
           [(new_field True n lname t)\<lparr>f_expression := Some ?e, f_sources := Some [OField g]\<rparr>]\<rparr>)"
    by (simp add: DerivedField_unfold [OF assms(1) assms(3)] tsa gf)
  have tabs: "heap_tables ?s' = registered s t n" by (simp add: res half_built_simps)
  have tsa': "table_sources_attr ?s' t = Inr (CDict (d_sources d))"
    using assms(2,4) by (simp add: table_sources_attr_def tabs registered_nth)
  have src_tab': "heap_tables ?s' ! src = heap_tables s ! src"
    using assms(6) by (simp add: tabs registered_nth)
  have str: "py_str ?s' (OField g) = Inr ''t1.income''"
    using assms(7,9,10,11) src_tab'
    by (simp add: py_str_def res nth_append)
  have fmt: "py_format ?s' ?e (d_sources d) = Inr ''abs(t1.income)''"
    using assms(5) attr [OF src_tab'] str
    by (simp add: py_format_def parse_abs_income format_get_field_def split_t1
          int_t1 rest_income render_field_def
          del: field_name_rest.simps formatter_parse.simps)
  have newf: "heap_fields ?s' ! length (heap_fields s) =
      (new_field True n lname t)\<lparr>f_expression := Some ?e, f_sources := Some [OField g]\<rparr>"
    by (simp add: res)
  show ?thesis
    using tsa' fmt
    by (simp add: get_expression_def get_sources_def newf new_field_def) (simp add: res)
qed

theorem C2_resolution_witness:
  "CURRENT_TABLE_CONTEXT income_scene = [1]
   \<and> map_of (t_fields (heap_tables income_scene ! 0)) ''income'' = Some 0
   \<and> fst (DerivedField ''abs_income'' ''abs({t1.income})'' None income_scene) = Inr 1
   \<and> get_expression (snd (DerivedField ''abs_income'' ''abs({t1.income})'' None income_scene)) 1
        = Inr ''abs(t1.income) as abs_income''
   \<and> get_sources (snd (DerivedField ''abs_income'' ''abs({t1.income})'' None income_scene)) 1
        = Inr {OField 0}"
proof -
  have h: "CURRENT_TABLE_CONTEXT income_scene = [1]"
          "1 < length (heap_tables income_scene)"
          "\<not> dict_contains ''abs_income'' (t_fields (heap_tables income_scene ! 1))"
          "t_derived (heap_tables income_scene ! 1)
             = Some \<lparr>d_groupby = [], d_sources = [(''t1'', 0)], d_from_expression = ''{t1}''\<rparr>"
          "map_of (d_sources \<lparr>d_groupby = [], d_sources = [(''t1'', 0)], d_from_expression = ''{t1}''\<rparr>)
             ''t1'' = Some 0"
          "(0::nat) \<noteq> 1"
          "t_alias (heap_tables income_scene ! 0) = ''t1''"
          "map_of (t_fields (heap_tables income_scene ! 0)) ''income'' = Some 0"
          "0 < length (heap_fields income_scene)"
          "f_pname (heap_fields income_scene ! 0) = ''income''"
          "f_table (heap_fields income_scene ! 0) = Some 0"
    by (simp_all add: income_scene_eq dict_contains_def)
  have l: "length (heap_fields income_scene) = 1" by (simp add: income_scene_eq)
  show ?thesis
    using C2_resolution [OF h, of None] h(1,8) l by simp
qed

section \<open>The compiled query\<close>

lemma compiled_scene_plain_eq:
  "compiled_scene_plain =
     \<lparr>heap_tables =
        [\<lparr>t_schema = ''schema'', t_pname = ''a'', t_lname = ''a'', t_alias = ''a'',
          t_fields = [(''id'', 0), (''vendor_id'', 1)], t_derived = None\<rparr>,
         \<lparr>t_schema = ''schema'', t_pname = ''b'', t_lname = ''b'', t_alias = ''b'',
          t_fields = [(''id'', 2)],
          t_derived = Some \<lparr>d_groupby = [], d_sources = [(''a'', 0)], d_from_expression = ''{a}''\<rparr>\<rparr>],
      heap_fields =
        [\<lparr>f_pname = ''id'', f_lname = ''id'', f_is_derived = False,
          f_table = Some 0, f_expression = None, f_sources = None\<rparr>,
         \<lparr>f_pname = ''vendor_id'', f_lname = ''vendor_id'', f_is_derived = False,
          f_table = Some 0, f_expression = None, f_sources = None\<rparr>,
         \<lparr>f_pname = ''id'', f_lname = ''id'', f_is_derived = True,
          f_table = Some 1, f_expression = Some ''{a.id}'', f_sources = Some [OField 0]\<rparr>],
      CURRENT_TABLE_CONTEXT = []\<rparr>"
  by (simp add: compiled_scene_plain_def b_open_scene_eq build_defs resolve_defs)

lemma compiled_scene_eq:
  "compiled_scene =
     compiled_scene_plain\<lparr>heap_tables := (heap_tables compiled_scene_plain)
        [1 := \<lparr>t_schema = ''schema'', t_pname = ''b'', t_lname = ''b'', t_alias = ''b'',
          t_fields = [(''id'', 2)],
          t_derived = Some \<lparr>d_groupby = [1], d_sources = [(''a'', 0)], d_from_expression = ''{a}''\<rparr>\<rparr>]\<rparr>"
  by (simp add: compiled_scene_def compiled_scene_plain_eq groupby_def)

lemmas compile_defs =
  get_query_def get_select_def get_from_def get_groupby_def newline_def replace_newline_def
  table_sources_attr_def split_first_def is_name_end_def get_integer_def is_ascii_def is_digit_def
  is_brace_def parse_field_def py_getattr_def table_native_attr_def table_getattr_def
  table_getitem_def

lemma compiled_scene_select: "get_select compiled_scene 1 4 = Inr ''a.id as id''"
  by (simp add: compiled_scene_eq compiled_scene_plain_eq compile_defs format_defs)

lemma compiled_scene_from: "get_from compiled_scene 1 = Inr ''schema.a as a''"
  by (simp add: compiled_scene_eq compiled_scene_plain_eq compile_defs format_defs)

lemma get_query_text:
  assumes "t_derived (heap_tables s ! t) = Some d"
      and "get_select s t 4 = Inr select_expr"
      and "get_from s t = Inr from_expr"
  shows "get_query s t =
           Inr (''create table '' @ t_pname (heap_tables s ! t) @ '' as\<newline>select\<newline>    '' @
                select_expr @ ''\<newline>from\<newline>    '' @ from_expr @ ''\<newline>\<newline>'' @
                (if d_groupby d = [] then []
                 else ''group by \<newline> '' @
                      str_join '',\<newline>'' (map (\<lambda>f. f_pname (heap_fields s ! f)) (d_groupby d))) @
                '';'')"
  using assms by (simp add: get_query_def get_groupby_def Let_def newline_def)

lemma compiled_scene_parts:
  "t_derived (heap_tables compiled_scene ! 1)
     = Some \<lparr>d_groupby = [1], d_sources = [(''a'', 0)], d_from_expression = ''{a}''\<rparr>"
  "t_pname (heap_tables compiled_scene ! 1) = ''b''"
  "f_pname (heap_fields compiled_scene ! 1) = ''vendor_id''"
  by (simp_all add: compiled_scene_eq compiled_scene_plain_eq)

lemma compiled_scene_plain_select: "get_select compiled_scene_plain 1 4 = Inr ''a.id as id''"
  by (simp add: compiled_scene_plain_eq compile_defs format_defs)

lemma compiled_scene_plain_from: "get_from compiled_scene_plain 1 = Inr ''schema.a as a''"
  by (simp add: compiled_scene_plain_eq compile_defs format_defs)

lemma compiled_scene_plain_parts:
  "t_derived (heap_tables compiled_scene_plain ! 1)
     = Some \<lparr>d_groupby = [], d_sources = [(''a'', 0)], d_from_expression = ''{a}''\<rparr>"
  "t_pname (heap_tables compiled_scene_plain ! 1) = ''b''"
  by (simp_all add: compiled_scene_plain_eq)

text \<open>
  Claim C1, as stated, fails on the text: for the scenario the code returns a
  statement in lower case, one clause per line, which is not the single-line
  upper-case string of the claim.
\<close>

theorem C1_uppercase_query_counterexample:
  "get_query compiled_scene 1 =
     Inr ''create table b as\<newline>select\<newline>    a.id as id\<newline>from\<newline>    schema.a as a\<newline>\<newline>group by \<newline> vendor_id;''
   \<and> get_query compiled_scene 1 \<noteq>
     Inr ''CREATE TABLE b AS SELECT a.id AS id FROM schema.a AS a GROUP BY vendor_id;''"
  unfolding get_query_text [OF compiled_scene_parts(1) compiled_scene_select compiled_scene_from] compiled_scene_parts
  by (simp add: compiled_scene_eq compiled_scene_plain_eq)

text \<open>
  Claim C1, amended. For the derived table \<open>b\<close> of the scenario
  \<open>get_query\<close> returns the lines \<open>create table b as\<close>, \<open>select\<close>,
  \<open>    a.id as id\<close>, \<open>from\<close>, \<open>    schema.a as a\<close>, an empty line for the
  where clause, \<open>group by \<close> and \<open> vendor_id;\<close>. Without a grouping key the
  text after the empty line is just \<open>;\<close>. In general, whenever the select
  and from clauses compile, the statement is these parts in this fixed order,
  and the group-by part is empty when the grouping set is empty.
\<close>

theorem C1_query_text:
  "get_query compiled_scene 1 =
     Inr ''create table b as\<newline>select\<newline>    a.id as id\<newline>from\<newline>    schema.a as a\<newline>\<newline>group by \<newline> vendor_id;''
   \<and> get_query compiled_scene_plain 1 =
     Inr ''create table b as\<newline>select\<newline>    a.id as id\<newline>from\<newline>    schema.a as a\<newline>\<newline>;''
   \<and> (t_derived (heap_tables s ! t) = Some d \<longrightarrow>
        get_select s t 4 = Inr select_expr \<longrightarrow>
        get_from s t = Inr from_expr \<longrightarrow>
        get_query s t =
          Inr (''create table '' @ t_pname (heap_tables s ! t) @ '' as\<newline>select\<newline>    '' @
               select_expr @ ''\<newline>from\<newline>    '' @ from_expr @ ''\<newline>\<newline>'' @
               (if d_groupby d = [] then []
                else ''group by \<newline> '' @
                     str_join '',\<newline>'' (map (\<lambda>f. f_pname (heap_fields s ! f)) (d_groupby d))) @
               '';''))"
proof -
  have a: "get_query compiled_scene 1 =
     Inr ''create table b as\<newline>select\<newline>    a.id as id\<newline>from\<newline>    schema.a as a\<newline>\<newline>group by \<newline> vendor_id;''"
    unfolding get_query_text [OF compiled_scene_parts(1) compiled_scene_select compiled_scene_from] compiled_scene_parts
    by (simp add: compiled_scene_eq compiled_scene_plain_eq)
  have b: "get_query compiled_scene_plain 1 =
     Inr ''create table b as\<newline>select\<newline>    a.id as id\<newline>from\<newline>    schema.a as a\<newline>\<newline>;''"
    unfolding get_query_text [OF compiled_scene_plain_parts(1) compiled_scene_plain_select compiled_scene_plain_from]
              compiled_scene_plain_parts
    by simp
  show ?thesis using a b get_query_text [of s t d select_expr from_expr] by blast
qed

theorem C1_query_text_witness:
  "t_derived (heap_tables compiled_scene ! 1)
     = Some \<lparr>d_groupby = [1], d_sources = [(''a'', 0)], d_from_expression = ''{a}''\<rparr>
   \<and> get_select compiled_scene 1 4 = Inr ''a.id as id''
   \<and> get_from compiled_scene 1 = Inr ''schema.a as a''
   \<and> get_query compiled_scene 1 =
     Inr ''create table b as\<newline>select\<newline>    a.id as id\<newline>from\<newline>    schema.a as a\<newline>\<newline>group by \<newline> vendor_id;''"
  using C1_query_text [of compiled_scene 1
          "\<lparr>d_groupby = [1], d_sources = [(''a'', 0)], d_from_expression = ''{a}''\<rparr>"
          "''a.id as id''" "''schema.a as a''"]
        compiled_scene_parts(1) compiled_scene_select compiled_scene_from
  by simp

section \<open>Lineage\<close>

























lemma sources_older_same_fields:
  "sources_older s \<Longrightarrow> heap_fields s' = heap_fields s \<Longrightarrow> sources_older s'"
  by (simp add: sources_older_def)













end
